theory Spec2Isabelle
  imports Main "HOL-Library.AList"
begin

section \<open>factory/alchemy.py: the SQLAlchemy factory\<close>

text \<open>
  A shallow embedding of \<^verbatim>\<open>src/factory/alchemy.py\<close>. The module talks to two
  collaborators it does not define: the ORM session and the mapped model class. Both
  are values here (records of their methods), every method takes the state of the
  outside world (database, identity map, heap) and returns the new one together with
  either the exception it raised (\<open>Inl\<close>) or its result (\<open>Inr\<close>). Nothing is assumed
  about what they do: a theorem about \<open>create\<close> holds for every session.
  Each call the module issues is appended to a trace, so that "no query is issued"
  and "flush comes last" are statements about that trace.
\<close>

subsection \<open>Python values, exceptions, dictionaries\<close>

text \<open>
  The values a configuration option can hold: \<^verbatim>\<open>None\<close>, a string, a number, a
  tuple, or a reference to some other object (a session, say). Python's \<^verbatim>\<open>==\<close> on
  them is equality here.
\<close>

datatype pyval = PyNone | PyStr string | PyInt int | PyTuple "pyval list" | PyObject nat

text \<open>
  The exceptions the module raises or handles. \<open>TypeError\<close> carries the three
  operands of the format string of line 21 (the meta, the list of valid values and
  the offending value); \<open>FactoryError\<close> and \<open>RuntimeError\<close> carry the message;
  \<open>AttributeError\<close> names the attribute that is missing; \<open>OtherError\<close> is
  anything else a collaborator raises.
\<close>

datatype exn =
    IntegrityError string
  | NoResultFound
  | MultipleResultsFound
  | FactoryError string
  | RuntimeError string
  | TypeError string "pyval list" pyval
  | AttributeError string
  | OtherError string

text \<open>
  Keyword arguments and parameter snapshots are Python dictionaries: association
  lists in insertion order. \<^verbatim>\<open>k in d\<close> is \<open>map_of d k \<noteq> None\<close>, \<^verbatim>\<open>d[k] = v\<close> is
  \<open>AList.update k v d\<close> and \<^verbatim>\<open>d.pop(k)\<close> leaves \<open>AList.delete k d\<close>.
\<close>

type_synonym 'v kwargs = "(string \<times> 'v) list"

subsection \<open>The collaborators and the trace\<close>

datatype ('o, 'v) event =
    EConstruct "'v list" "'v kwargs"      \<comment> \<open>\<^verbatim>\<open>model_class(*args, **kwargs)\<close>\<close>
  | EQueryOneOrNone "'v list" "'v kwargs" \<comment> \<open>\<^verbatim>\<open>session.query(m).filter_by(*a, **k).one_or_none()\<close>\<close>
  | EQueryOne "'v kwargs"                 \<comment> \<open>\<^verbatim>\<open>session.query(m).filter_by(**k).one()\<close>\<close>
  | EContains 'o bool                     \<comment> \<open>\<^verbatim>\<open>obj in session\<close> and its answer\<close>
  | EAdd 'o                               \<comment> \<open>\<^verbatim>\<open>session.add(obj)\<close>\<close>
  | EFlush                                \<comment> \<open>\<^verbatim>\<open>session.flush()\<close>\<close>
  | ECommit                               \<comment> \<open>\<^verbatim>\<open>session.commit()\<close>\<close>
  | ERollback                             \<comment> \<open>\<^verbatim>\<open>session.rollback()\<close>\<close>

text \<open>
  The model class: its name, its constructor, and the truth value Python gives an
  instance of it (\<^verbatim>\<open>bool(instance)\<close>: true for a plain object, but whatever
  \<^verbatim>\<open>__bool__\<close> or \<^verbatim>\<open>__len__\<close> says when the class defines one).
\<close>

record ('s, 'o, 'v) model_class =
  mc_name :: string
  construct :: "'v list \<Rightarrow> 'v kwargs \<Rightarrow> 's \<Rightarrow> (exn + 'o) \<times> 's"
  truthy :: "'o \<Rightarrow> bool"

text \<open>
  The session, by the methods the module calls on it. \<^verbatim>\<open>one_or_none()\<close> returns a row
  or \<^verbatim>\<open>None\<close>, which is \<open>None\<close> of the option type here.
\<close>

record ('s, 'o, 'v) session =
  query_one_or_none ::
    "('s, 'o, 'v) model_class \<Rightarrow> 'v list \<Rightarrow> 'v kwargs \<Rightarrow> 's \<Rightarrow> (exn + 'o option) \<times> 's"
  query_one :: "('s, 'o, 'v) model_class \<Rightarrow> 'v kwargs \<Rightarrow> 's \<Rightarrow> (exn + 'o) \<times> 's"
  contains :: "'o \<Rightarrow> 's \<Rightarrow> bool"
  add :: "'o \<Rightarrow> 's \<Rightarrow> (exn + unit) \<times> 's"
  flush :: "'s \<Rightarrow> (exn + unit) \<times> 's"
  commit :: "'s \<Rightarrow> (exn + unit) \<times> 's"
  rollback :: "'s \<Rightarrow> (exn + unit) \<times> 's"

text \<open>The state threaded through a call: the outside world and the trace so far.\<close>

record ('s, 'o, 'v) state =
  world :: 's
  trace :: "('o, 'v) event list"

definition call ::
  "('o, 'v) event \<Rightarrow> ('s \<Rightarrow> (exn + 'a) \<times> 's) \<Rightarrow> ('s, 'o, 'v) state
     \<Rightarrow> (exn + 'a) \<times> ('s, 'o, 'v) state" where
  "call ev f st =
     (case f (world st) of
        (r, w) \<Rightarrow> (r, \<lparr>world = w, trace = trace st @ [ev]\<rparr>))"

subsection \<open>The options and the factory class\<close>

text \<open>Lines 8 to 14.\<close>

definition SESSION_PERSISTENCE_COMMIT :: string where
  "SESSION_PERSISTENCE_COMMIT = ''commit''"

definition SESSION_PERSISTENCE_FLUSH :: string where
  "SESSION_PERSISTENCE_FLUSH = ''flush''"

definition VALID_SESSION_PERSISTENCE_TYPES :: "pyval list" where
  "VALID_SESSION_PERSISTENCE_TYPES =
     [PyNone, PyStr SESSION_PERSISTENCE_COMMIT, PyStr SESSION_PERSISTENCE_FLUSH]"

text \<open>
  \<^verbatim>\<open>cls._meta\<close>: the three options of lines 27 to 34, with their defaults
  \<^verbatim>\<open>()\<close>, \<^verbatim>\<open>None\<close> and \<^verbatim>\<open>None\<close>.
\<close>

record ('s, 'o, 'v) meta =
  sqlalchemy_get_or_create :: "string list"
  sqlalchemy_session :: "('s, 'o, 'v) session option"
  sqlalchemy_session_persistence :: pyval

text \<open>
  The factory class: \<^verbatim>\<open>cls.__name__\<close>, \<^verbatim>\<open>cls._meta\<close> and the class attribute
  \<^verbatim>\<open>cls._original_params\<close>, which exists only once \<^verbatim>\<open>_generate\<close> has stored it.
\<close>

record ('s, 'o, 'v) factory =
  cls_name :: string
  cls_meta :: "('s, 'o, 'v) meta"
  original_params :: "'v kwargs option"

subsection \<open>\<^verbatim>\<open>_check_sqlalchemy_session_persistence\<close> (lines 18 to 23)\<close>

definition check_sqlalchemy_session_persistence :: "string \<Rightarrow> pyval \<Rightarrow> exn + unit" where
  "check_sqlalchemy_session_persistence meta_name v =
     (if v \<notin> set VALID_SESSION_PERSISTENCE_TYPES
      then Inl (TypeError meta_name VALID_SESSION_PERSISTENCE_TYPES v)
      else Inr ())"

subsection \<open>\<^verbatim>\<open>_build_default_options\<close> (lines 25 to 35)\<close>

text \<open>
  \<^verbatim>\<open>base.OptionDefault(name, value, inherit=..., checker=...)\<close>: the declaration of
  one option. The options of the base class (\<^verbatim>\<open>super()._build_default_options()\<close>)
  are the parameter \<open>super_options\<close>.
\<close>

record option_default =
  od_name :: string
  od_value :: pyval
  od_inherit :: bool
  od_checker :: "(string \<Rightarrow> pyval \<Rightarrow> exn + unit) option"

definition build_default_options :: "option_default list \<Rightarrow> option_default list" where
  "build_default_options super_options =
     super_options @
     [\<lparr>od_name = ''sqlalchemy_get_or_create'', od_value = PyTuple [], od_inherit = True,
        od_checker = None\<rparr>,
      \<lparr>od_name = ''sqlalchemy_session'', od_value = PyNone, od_inherit = True,
        od_checker = None\<rparr>,
      \<lparr>od_name = ''sqlalchemy_session_persistence'', od_value = PyNone, od_inherit = True,
        od_checker = Some check_sqlalchemy_session_persistence\<rparr>]"

text \<open>
  Modelled from the spec: the generic engine (\<^verbatim>\<open>factory/base.py\<close>, its
  \<^verbatim>\<open>FactoryOptions\<close> and \<^verbatim>\<open>OptionDefault\<close>) is not among the sources. The spec
  says the options are "declared as inheritable, checked, named options within that
  engine's configuration object model", each "validated at declaration time", an
  invalid value being "a hard configuration error raised immediately, not deferred to
  use time". So defining a factory configuration takes, for each declared option in
  turn, the value the \<^verbatim>\<open>Meta\<close> gives it (the option's default when it gives none), runs
  the option's checker on it, and fails with the first error a checker raises.
\<close>

definition apply_option ::
  "string \<Rightarrow> (string \<times> pyval) list \<Rightarrow> option_default \<Rightarrow> exn + pyval" where
  "apply_option meta_name declared od =
     (let v = (case map_of declared (od_name od) of None \<Rightarrow> od_value od | Some x \<Rightarrow> x)
      in case od_checker od of
           None \<Rightarrow> Inr v
         | Some checker \<Rightarrow>
             (case checker meta_name v of Inl e \<Rightarrow> Inl e | Inr u \<Rightarrow> Inr v))"

text \<open>
  Modelled from the spec: the definition of a factory configuration, which is the
  engine's and not among the sources, runs over the declared options in order ("a
  validation function invoked at construction"), and yields the value of each option
  by name unless a checker raised.
\<close>

fun define_options ::
  "string \<Rightarrow> (string \<times> pyval) list \<Rightarrow> option_default list
     \<Rightarrow> exn + (string \<times> pyval) list" where
  "define_options meta_name declared [] = Inr []"
| "define_options meta_name declared (od # ods) =
     (case apply_option meta_name declared od of
        Inl e \<Rightarrow> Inl e
      | Inr v \<Rightarrow>
          (case define_options meta_name declared ods of
             Inl e \<Rightarrow> Inl e
           | Inr vs \<Rightarrow> Inr ((od_name od, v) # vs)))"

subsection \<open>\<^verbatim>\<open>_generate\<close> (lines 46 to 51)\<close>

text \<open>
  The generic engine's \<^verbatim>\<open>_generate\<close> is not part of this module; it is the
  parameter \<open>super_generate\<close>, called on the class with the snapshot stored.
\<close>

definition generate ::
  "(('s, 'o, 'v) factory \<Rightarrow> 'g \<Rightarrow> 'v kwargs \<Rightarrow> 'r) \<Rightarrow> ('s, 'o, 'v) factory \<Rightarrow> 'g \<Rightarrow> 'v kwargs \<Rightarrow> 'r"
  where
  "generate super_generate cls strategy params =
     super_generate (cls\<lparr>original_params := Some params\<rparr>) strategy params"

subsection \<open>\<^verbatim>\<open>_get_or_create\<close> (lines 53 to 93)\<close>

text \<open>The message of lines 63 to 65.\<close>

definition missing_field_message :: "string \<Rightarrow> string \<Rightarrow> string" where
  "missing_field_message field name =
     ''sqlalchemy_get_or_create - '' @
     ''Unable to find initialization value for '' @ [CHR 0x27] @ field @ [CHR 0x27] @
     '' in factory '' @ name"

text \<open>
  The loop of lines 59 to 66 over \<^verbatim>\<open>cls._meta.sqlalchemy_get_or_create\<close>: each
  field is popped from \<open>kwargs\<close> into \<open>key_fields\<close>; the first field that \<open>kwargs\<close>
  does not hold raises.
\<close>

fun pop_key_fields ::
  "string \<Rightarrow> string list \<Rightarrow> 'v kwargs \<Rightarrow> 'v kwargs \<Rightarrow> exn + ('v kwargs \<times> 'v kwargs)" where
  "pop_key_fields name [] key_fields kwargs = Inr (key_fields, kwargs)"
| "pop_key_fields name (field # fs) key_fields kwargs =
     (case map_of kwargs field of
        None \<Rightarrow> Inl (FactoryError (missing_field_message field name))
      | Some v \<Rightarrow>
          pop_key_fields name fs (AList.update field v key_fields)
            (AList.delete field kwargs))"

text \<open>The body of the \<^verbatim>\<open>try\<close> when no instance was found (lines 73 and 74).\<close>

definition insert_new ::
  "('s, 'o, 'v) session \<Rightarrow> ('s, 'o, 'v) model_class \<Rightarrow> 'v list \<Rightarrow> 'v kwargs
     \<Rightarrow> ('s, 'o, 'v) state \<Rightarrow> (exn + 'o) \<times> ('s, 'o, 'v) state" where
  "insert_new sess mc args key_fields st =
     (case call (EConstruct args key_fields) (construct mc args key_fields) st of
        (Inl e, st1) \<Rightarrow> (Inl e, st1)
      | (Inr instance, st1) \<Rightarrow>
          (case call (EAdd instance) (add sess instance) st1 of
             (Inl e, st2) \<Rightarrow> (Inl e, st2)
           | (Inr u, st2) \<Rightarrow> (Inr instance, st2)))"

text \<open>The dictionary comprehension of lines 77 to 81.\<close>

definition get_or_create_params :: "string list \<Rightarrow> 'v kwargs \<Rightarrow> 'v kwargs" where
  "get_or_create_params names params =
     filter (\<lambda>(lookup, v). lookup \<in> set names) params"

text \<open>
  The handler of lines 75 to 91, entered with the \<^verbatim>\<open>IntegrityError\<close> \<open>e\<close>.
  An exception raised by \<^verbatim>\<open>rollback\<close>, a missing \<^verbatim>\<open>_original_params\<close> and any
  exception of \<^verbatim>\<open>one()\<close> other than \<^verbatim>\<open>NoResultFound\<close> leave the handler as they are.
\<close>

definition recover ::
  "('s, 'o, 'v) factory \<Rightarrow> ('s, 'o, 'v) session \<Rightarrow> ('s, 'o, 'v) model_class \<Rightarrow> exn
     \<Rightarrow> ('s, 'o, 'v) state \<Rightarrow> (exn + 'o) \<times> ('s, 'o, 'v) state" where
  "recover cls sess mc e st =
     (case call ERollback (rollback sess) st of
        (Inl e', st1) \<Rightarrow> (Inl e', st1)
      | (Inr u, st1) \<Rightarrow>
          (case original_params cls of
             None \<Rightarrow> (Inl (AttributeError ''_original_params''), st1)
           | Some params \<Rightarrow>
               (let p = get_or_create_params (sqlalchemy_get_or_create (cls_meta cls)) params in
                if p \<noteq> [] then
                  (case call (EQueryOne p) (query_one sess mc p) st1 of
                     (Inl NoResultFound, st2) \<Rightarrow> (Inl e, st2)
                   | (Inl e', st2) \<Rightarrow> (Inl e', st2)
                   | (Inr instance, st2) \<Rightarrow> (Inr instance, st2))
                else (Inl e, st1))))"

definition is_IntegrityError :: "exn \<Rightarrow> bool" where
  "is_IntegrityError e = (case e of IntegrityError m \<Rightarrow> True | _ \<Rightarrow> False)"

text \<open>
  Lines 71 to 91 on the branch where \<^verbatim>\<open>not instance\<close> holds: the insert inside the
  \<^verbatim>\<open>try\<close>, and the handler when it raised an \<^verbatim>\<open>IntegrityError\<close>. Any other exception
  leaves the method.
\<close>

definition insert_or_recover ::
  "('s, 'o, 'v) factory \<Rightarrow> ('s, 'o, 'v) session \<Rightarrow> ('s, 'o, 'v) model_class \<Rightarrow> 'v list
     \<Rightarrow> 'v kwargs \<Rightarrow> ('s, 'o, 'v) state \<Rightarrow> (exn + 'o) \<times> ('s, 'o, 'v) state" where
  "insert_or_recover cls sess mc args key_fields st1 =
     (case insert_new sess mc args key_fields st1 of
        (Inr instance, st2) \<Rightarrow> (Inr instance, st2)
      | (Inl e, st2) \<Rightarrow>
          if is_IntegrityError e then recover cls sess mc e st2 else (Inl e, st2))"

text \<open>
  The whole method. \<^verbatim>\<open>session\<close> is read at line 57 and first used at line 68;
  on a class without session that use raises \<^verbatim>\<open>AttributeError\<close>. Line 72 tests
  \<^verbatim>\<open>not instance\<close>: that holds when the lookup returned \<^verbatim>\<open>None\<close>, and also when it
  returned a row that Python finds false.
\<close>

definition get_or_create ::
  "('s, 'o, 'v) factory \<Rightarrow> ('s, 'o, 'v) model_class \<Rightarrow> 'v list \<Rightarrow> 'v kwargs
     \<Rightarrow> ('s, 'o, 'v) state \<Rightarrow> (exn + 'o) \<times> ('s, 'o, 'v) state" where
  "get_or_create cls mc args kwargs st =
     (case pop_key_fields (cls_name cls) (sqlalchemy_get_or_create (cls_meta cls)) [] kwargs of
        Inl e \<Rightarrow> (Inl e, st)
      | Inr (key_fields, rest) \<Rightarrow>
          (case sqlalchemy_session (cls_meta cls) of
             None \<Rightarrow> (Inl (AttributeError ''query''), st)
           | Some sess \<Rightarrow>
               (case call (EQueryOneOrNone args key_fields)
                       (query_one_or_none sess mc args key_fields) st of
                  (Inl e, st1) \<Rightarrow> (Inl e, st1)
                | (Inr None, st1) \<Rightarrow> insert_or_recover cls sess mc args key_fields st1
                | (Inr (Some instance), st1) \<Rightarrow>
                    if \<not> truthy mc instance
                    then insert_or_recover cls sess mc args key_fields st1
                    else (Inr instance, st1))))"

subsection \<open>\<^verbatim>\<open>_create\<close> (lines 95 to 112)\<close>

text \<open>Lines 106 and 107.\<close>

definition add_if_untracked ::
  "('s, 'o, 'v) session \<Rightarrow> 'o \<Rightarrow> ('s, 'o, 'v) state \<Rightarrow> (exn + unit) \<times> ('s, 'o, 'v) state" where
  "add_if_untracked sess obj st =
     (let tracked = contains sess obj (world st);
          st1 = st\<lparr>trace := trace st @ [EContains obj tracked]\<rparr>
      in if \<not> tracked then call (EAdd obj) (add sess obj) st1 else (Inr (), st1))"

text \<open>Lines 108 to 111.\<close>

definition apply_persistence ::
  "('s, 'o, 'v) session \<Rightarrow> pyval \<Rightarrow> ('s, 'o, 'v) state \<Rightarrow> (exn + unit) \<times> ('s, 'o, 'v) state" where
  "apply_persistence sess session_persistence st =
     (if session_persistence = PyStr SESSION_PERSISTENCE_FLUSH then call EFlush (flush sess) st
      else if session_persistence = PyStr SESSION_PERSISTENCE_COMMIT
      then call ECommit (commit sess) st
      else (Inr (), st))"

definition create ::
  "('s, 'o, 'v) factory \<Rightarrow> ('s, 'o, 'v) model_class \<Rightarrow> 'v list \<Rightarrow> 'v kwargs
     \<Rightarrow> ('s, 'o, 'v) state \<Rightarrow> (exn + 'o) \<times> ('s, 'o, 'v) state" where
  "create cls mc args kwargs st =
     (let session_persistence = sqlalchemy_session_persistence (cls_meta cls) in
      case call (EConstruct args kwargs) (construct mc args kwargs) st of
        (Inl e, st1) \<Rightarrow> (Inl e, st1)
      | (Inr obj0, st1) \<Rightarrow>
          (case sqlalchemy_session (cls_meta cls) of
             None \<Rightarrow> (Inl (RuntimeError ''No session provided.''), st1)
           | Some sess \<Rightarrow>
               (case (if sqlalchemy_get_or_create (cls_meta cls) \<noteq> []
                      then get_or_create cls mc args kwargs st1
                      else (Inr obj0, st1)) of
                  (Inl e, st2) \<Rightarrow> (Inl e, st2)
                | (Inr obj, st2) \<Rightarrow>
                    (case add_if_untracked sess obj st2 of
                       (Inl e, st3) \<Rightarrow> (Inl e, st3)
                     | (Inr u, st3) \<Rightarrow>
                         (case apply_persistence sess session_persistence st3 of
                            (Inl e, st4) \<Rightarrow> (Inl e, st4)
                          | (Inr u', st4) \<Rightarrow> (Inr obj, st4))))))"

subsection \<open>Sessions and model classes to run the module on\<close>

text \<open>
  A model class whose instance is the pair of the arguments it was constructed with,
  and a session double scripted by the answers it gives: what the first lookup
  finds, what \<^verbatim>\<open>add\<close> answers, what the second lookup answers, whether it reports an
  object as tracked, and what \<^verbatim>\<open>flush\<close> and \<^verbatim>\<open>commit\<close> answer. Its world is the
  number of calls it has served.
\<close>

type_synonym row = "string list \<times> string kwargs"

definition user_model :: "('s, row, string) model_class" where
  "user_model =
     \<lparr>mc_name = ''User'', construct = (\<lambda>args kwargs w. (Inr (args, kwargs), w)),
      truthy = (\<lambda>obj. True)\<rparr>"

text \<open>
  A model class with a \<^verbatim>\<open>__len__\<close>: the number of positional arguments the instance
  was made with. An instance made with none is false for Python.
\<close>

definition playlist_model :: "('s, row, string) model_class" where
  "playlist_model =
     \<lparr>mc_name = ''Playlist'', construct = (\<lambda>args kwargs w. (Inr (args, kwargs), w)),
      truthy = (\<lambda>obj. length (fst obj) \<noteq> 0)\<rparr>"

definition scripted_session ::
  "row option \<Rightarrow> exn + unit \<Rightarrow> exn + row \<Rightarrow> bool \<Rightarrow> exn + unit
     \<Rightarrow> (nat, row, string) session" where
  "scripted_session found added requery tracked persisted =
     \<lparr>query_one_or_none = (\<lambda>mc args kwargs w. (Inr found, Suc w)),
      query_one = (\<lambda>mc kwargs w. (requery, Suc w)),
      contains = (\<lambda>obj w. tracked),
      add = (\<lambda>obj w. (added, Suc w)),
      flush = (\<lambda>w. (persisted, Suc w)),
      commit = (\<lambda>w. (persisted, Suc w)),
      rollback = (\<lambda>w. (Inr (), Suc w))\<rparr>"

text \<open>
  A second double, which keeps in its world the names of the methods called on it, in
  order: it finds what it is told to find, reports an object as tracked or not as it
  is told, and accepts every \<^verbatim>\<open>add\<close>, \<^verbatim>\<open>flush\<close>, \<^verbatim>\<open>commit\<close> and \<^verbatim>\<open>rollback\<close>.
\<close>

definition ledger_session :: "row option \<Rightarrow> bool \<Rightarrow> (string list, row, string) session" where
  "ledger_session found tracked =
     \<lparr>query_one_or_none = (\<lambda>mc args kwargs w. (Inr found, w @ [''one_or_none''])),
      query_one = (\<lambda>mc kwargs w. (Inl NoResultFound, w @ [''one''])),
      contains = (\<lambda>obj w. tracked),
      add = (\<lambda>obj w. (Inr (), w @ [''add''])),
      flush = (\<lambda>w. (Inr (), w @ [''flush''])),
      commit = (\<lambda>w. (Inr (), w @ [''commit''])),
      rollback = (\<lambda>w. (Inr (), w @ [''rollback'']))\<rparr>"

definition ledger_start :: "(string list, row, string) state" where
  "ledger_start = \<lparr>world = [], trace = []\<rparr>"

definition user_factory ::
  "string list \<Rightarrow> ('s, row, string) session option \<Rightarrow> pyval \<Rightarrow> string kwargs option
     \<Rightarrow> ('s, row, string) factory" where
  "user_factory key_names sess persistence params =
     \<lparr>cls_name = ''UserFactory'',
      cls_meta = \<lparr>sqlalchemy_get_or_create = key_names, sqlalchemy_session = sess,
                   sqlalchemy_session_persistence = persistence\<rparr>,
      original_params = params\<rparr>"

definition start :: "(nat, row, string) state" where
  "start = \<lparr>world = 0, trace = []\<rparr>"

text \<open>The events a persistence policy issues (lines 108 to 111), for the statements.\<close>

definition policy_events :: "pyval \<Rightarrow> ('o, 'v) event list" where
  "policy_events session_persistence =
     (if session_persistence = PyStr SESSION_PERSISTENCE_FLUSH then [EFlush]
      else if session_persistence = PyStr SESSION_PERSISTENCE_COMMIT then [ECommit]
      else [])"

section \<open>Auxiliary facts\<close>

lemma call_eq:
  "call ev f st = (r, st') \<longleftrightarrow>
     (\<exists>w. f (world st) = (r, w) \<and> st' = \<lparr>world = w, trace = trace st @ [ev]\<rparr>)"
  by (auto simp: call_def split: prod.splits)

lemma update_fresh: "k \<notin> fst ` set al \<Longrightarrow> AList.update k v al = al @ [(k, v)]"
  by (induction al) auto

lemma map_of_delete_other: "h \<noteq> f \<Longrightarrow> map_of (AList.delete f kw) h = map_of kw h"
  by (simp add: delete_conv')

lemma pop_key_fields_Inr:
  "pop_key_fields name fs kf kw = Inr (kf', rest) \<Longrightarrow>
     distinct fs \<and> set fs \<subseteq> fst ` set kw \<and>
     rest = filter (\<lambda>(k, v). k \<notin> set fs) kw \<and>
     (fst ` set kf \<inter> set fs = {} \<longrightarrow>
        map fst kf' = map fst kf @ fs \<and>
        (\<forall>k. map_of kf' k = (if k \<in> set fs then map_of kw k else map_of kf k)))"
proof (induction fs arbitrary: kf kw)
  case Nil
  then show ?case by auto
next
  case (Cons f fs)
  from Cons.prems obtain v where v: "map_of kw f = Some v"
    and rec: "pop_key_fields name fs (AList.update f v kf) (AList.delete f kw) = Inr (kf', rest)"
    by (auto split: option.splits)
  note ih = Cons.IH [OF rec]
  have keys: "fst ` set (AList.delete f kw) = fst ` set kw - {f}"
    by (induction kw) auto
  from ih keys have nf: "f \<notin> set fs" by auto
  have del: "map_of (AList.delete f kw) h = map_of kw h" if "h \<in> set fs" for h
    using that nf by (intro map_of_delete_other) auto
  have fin: "f \<in> fst ` set kw" using v by (metis map_of_eq_None_iff option.distinct(1))
  have d: "distinct (f # fs)" using ih nf by simp
  have sub: "set (f # fs) \<subseteq> fst ` set kw" using ih keys fin by auto
  have r: "rest = filter (\<lambda>(k, v). k \<notin> set (f # fs)) kw"
    using ih by (auto simp: AList.delete_eq intro: filter_cong)
  have m: "fst ` set kf \<inter> set (f # fs) = {} \<longrightarrow>
        map fst kf' = map fst kf @ (f # fs) \<and>
        (\<forall>k. map_of kf' k = (if k \<in> set (f # fs) then map_of kw k else map_of kf k))"
  proof
    assume dis: "fst ` set kf \<inter> set (f # fs) = {}"
    then have fresh: "f \<notin> fst ` set kf" by auto
    have upd: "AList.update f v kf = kf @ [(f, v)]" using fresh by (rule update_fresh)
    have "fst ` set (AList.update f v kf) \<inter> set fs = {}"
      using dis nf by (auto simp: upd)
    with ih have a: "map fst kf' = map fst (AList.update f v kf) @ fs"
      and b: "\<forall>k. map_of kf' k =
          (if k \<in> set fs then map_of (AList.delete f kw) k else map_of (AList.update f v kf) k)"
      by auto
    have "map fst kf' = map fst kf @ (f # fs)" using a by (simp add: upd)
    moreover have "map_of kf' k = (if k \<in> set (f # fs) then map_of kw k else map_of kf k)" for k
      using b nf v by (auto simp: del update_conv')
    ultimately show "map fst kf' = map fst kf @ (f # fs) \<and>
        (\<forall>k. map_of kf' k = (if k \<in> set (f # fs) then map_of kw k else map_of kf k))"
      by blast
  qed
  from d sub r m show ?case by blast
qed

lemma pop_key_fields_distinct:
  "distinct fs \<Longrightarrow>
   pop_key_fields name fs kf kw =
     (case List.find (\<lambda>h. map_of kw h = None) fs of
        Some g \<Rightarrow> Inl (FactoryError (missing_field_message g name))
      | None \<Rightarrow> pop_key_fields name fs kf kw)"
proof (induction fs arbitrary: kf kw)
  case Nil
  then show ?case by simp
next
  case (Cons f fs)
  show ?case
  proof (cases "map_of kw f")
    case None
    then show ?thesis by simp
  next
    case (Some v)
    from Cons.prems have nf: "f \<notin> set fs" and d: "distinct fs" by auto
    have "map_of (AList.delete f kw) h = map_of kw h" if "h \<in> set fs" for h
      using that nf by (intro map_of_delete_other) auto
    then have same: "List.find (\<lambda>h. map_of (AList.delete f kw) h = None) fs
        = List.find (\<lambda>h. map_of kw h = None) fs"
      by (intro find_cong) auto
    show ?thesis
      using Cons.IH [OF d, of "AList.update f v kf" "AList.delete f kw"] Some
      by (simp add: same split: option.splits)
  qed
qed

lemma pop_key_fields_Inl:
  "pop_key_fields name fs kf kw = Inl e \<Longrightarrow>
     \<exists>g \<in> set fs. e = FactoryError (missing_field_message g name)"
  by (induction fs arbitrary: kf kw) (auto split: option.splits)

lemma insert_new_cases:
  "insert_new sess mc args kf st = (r, st') \<Longrightarrow>
     (\<exists>e w. construct mc args kf (world st) = (Inl e, w) \<and> r = Inl e \<and>
        st' = \<lparr>world = w, trace = trace st @ [EConstruct args kf]\<rparr>) \<or>
     (\<exists>inst w e w'. construct mc args kf (world st) = (Inr inst, w) \<and>
        add sess inst w = (Inl e, w') \<and> r = Inl e \<and>
        st' = \<lparr>world = w', trace = trace st @ [EConstruct args kf, EAdd inst]\<rparr>) \<or>
     (\<exists>inst w w'. construct mc args kf (world st) = (Inr inst, w) \<and>
        add sess inst w = (Inr (), w') \<and> r = Inr inst \<and>
        st' = \<lparr>world = w', trace = trace st @ [EConstruct args kf, EAdd inst]\<rparr>)"
  by (auto simp: insert_new_def call_def split: prod.splits sum.splits)

lemma recover_trace:
  "recover cls sess mc e st = (r, st') \<Longrightarrow>
     \<exists>evs. trace st' = trace st @ evs \<and>
       (\<forall>ev \<in> set evs. ev = ERollback \<or> (\<exists>p. ev = EQueryOne p))"
  by (auto simp: recover_def call_def Let_def
      split: prod.splits sum.splits option.splits if_splits exn.splits)

lemma insert_or_recover_trace:
  assumes "insert_or_recover cls sess mc args kf st1 = (r, st')"
  shows "\<exists>evs. trace st' = trace st1 @ EConstruct args kf # evs \<and>
     (\<forall>ev \<in> set evs. (\<exists>obj. ev = EAdd obj) \<or> ev = ERollback \<or> (\<exists>p. ev = EQueryOne p))"
proof -
  obtain r2 st2 where i: "insert_new sess mc args kf st1 = (r2, st2)"
    by (cases "insert_new sess mc args kf st1")
  from insert_new_cases [OF i]
  have t2: "trace st2 = trace st1 @ [EConstruct args kf] \<or>
            (\<exists>obj. trace st2 = trace st1 @ [EConstruct args kf, EAdd obj])"
    by auto
  have "st' = st2 \<or> recover cls sess mc (projl r2) st2 = (r, st')"
    using assms i by (auto simp: insert_or_recover_def split: sum.splits if_splits)
  then show ?thesis
  proof
    assume "st' = st2"
    with t2 show ?thesis by auto
  next
    assume "recover cls sess mc (projl r2) st2 = (r, st')"
    from recover_trace [OF this] obtain evs where
      "trace st' = trace st2 @ evs" and
      "\<forall>ev \<in> set evs. ev = ERollback \<or> (\<exists>p. ev = EQueryOne p)"
      by (elim exE conjE) (rule that, assumption+)
    with t2 show ?thesis by auto
  qed
qed

lemma get_or_create_trace:
  assumes "get_or_create cls mc args kwargs st = (r, st')"
  shows "\<exists>evs. trace st' = trace st @ evs \<and>
     (\<forall>ev \<in> set evs. ev \<noteq> EFlush \<and> ev \<noteq> ECommit \<and> (\<forall>obj b. ev \<noteq> EContains obj b) \<and>
        (\<forall>a k. ev = EConstruct a k \<longrightarrow> a = args \<and>
           (\<exists>rest. pop_key_fields (cls_name cls) (sqlalchemy_get_or_create (cls_meta cls)) []
              kwargs = Inr (k, rest))))"
proof (cases "pop_key_fields (cls_name cls) (sqlalchemy_get_or_create (cls_meta cls)) [] kwargs")
  case (Inl e)
  with assms show ?thesis by (simp add: get_or_create_def)
next
  case (Inr p)
  obtain kf rest where p: "p = (kf, rest)" by (cases p)
  show ?thesis
  proof (cases "sqlalchemy_session (cls_meta cls)")
    case None
    with assms Inr p show ?thesis by (simp add: get_or_create_def)
  next
    case (Some sess)
    obtain q st1 where q: "call (EQueryOneOrNone args kf) (query_one_or_none sess mc args kf) st = (q, st1)"
      by (cases "call (EQueryOneOrNone args kf) (query_one_or_none sess mc args kf) st")
    then have t1: "trace st1 = trace st @ [EQueryOneOrNone args kf]"
      by (auto simp: call_eq)
    have "st' = st1 \<or> insert_or_recover cls sess mc args kf st1 = (r, st')"
      using assms Inr p Some q
      by (auto simp: get_or_create_def split: sum.splits option.splits if_splits)
    then show ?thesis
    proof
      assume "st' = st1"
      with t1 show ?thesis by simp
    next
      assume "insert_or_recover cls sess mc args kf st1 = (r, st')"
      from insert_or_recover_trace [OF this] obtain evs where
        "trace st' = trace st1 @ EConstruct args kf # evs" and
        "\<forall>ev \<in> set evs. (\<exists>obj. ev = EAdd obj) \<or> ev = ERollback \<or> (\<exists>p. ev = EQueryOne p)"
        by (elim exE conjE) (rule that, assumption+)
      with t1 Inr p show ?thesis by auto
    qed
  qed
qed

section \<open>What the module guarantees\<close>

text \<open>
  Claim C2 says that a row the first lookup of \<^verbatim>\<open>_get_or_create\<close> returns is the
  result, with no constructor call and no \<^verbatim>\<open>session.add\<close>. The code does so for a row
  that Python finds true: the lookup is then the only call the method issues.
\<close>

lemma get_or_create_returns_truthy_row:
  assumes keys: "pop_key_fields (cls_name cls) (sqlalchemy_get_or_create (cls_meta cls)) []
                   kwargs = Inr (key_fields, rest)"
    and sess: "sqlalchemy_session (cls_meta cls) = Some sess"
    and found: "query_one_or_none sess mc args key_fields (world st) = (Inr (Some existing), w)"
    and true: "truthy mc existing"
  shows "map fst key_fields = sqlalchemy_get_or_create (cls_meta cls) \<and>
         (\<forall>f \<in> set (sqlalchemy_get_or_create (cls_meta cls)).
            map_of key_fields f = map_of kwargs f) \<and>
         get_or_create cls mc args kwargs st =
           (Inr existing, \<lparr>world = w, trace = trace st @ [EQueryOneOrNone args key_fields]\<rparr>)"
proof -
  from pop_key_fields_Inr [OF keys]
  have "map fst key_fields = sqlalchemy_get_or_create (cls_meta cls)"
    and "\<forall>f \<in> set (sqlalchemy_get_or_create (cls_meta cls)).
            map_of key_fields f = map_of kwargs f"
    by auto
  moreover have "get_or_create cls mc args kwargs st =
           (Inr existing, \<lparr>world = w, trace = trace st @ [EQueryOneOrNone args key_fields]\<rparr>)"
    using keys sess found true by (simp add: get_or_create_def call_def)
  ultimately show ?thesis by blast
qed

text \<open>
  Claim C2 fails on the code for a row that Python finds false, since line 72 tests
  \<^verbatim>\<open>not instance\<close> and not \<^verbatim>\<open>instance is None\<close>. Here the model class has a \<^verbatim>\<open>__len__\<close>,
  the session holds the playlist \<open>mix\<close> (the row with the id 1), which is empty, and
  the lookup returns it: \<^verbatim>\<open>_get_or_create\<close> constructs a second \<open>mix\<close>, adds it to the
  session and returns it instead of the row that exists.
\<close>

theorem get_or_create_duplicates_falsy_row:
  "\<not> truthy (playlist_model :: (string list, row, string) model_class)
       ([], [(''name'', ''mix''), (''id'', ''1'')]) \<and>
   query_one_or_none (ledger_session (Some ([], [(''name'', ''mix''), (''id'', ''1'')])) False)
     playlist_model [] [(''name'', ''mix'')] (world ledger_start)
   = (Inr (Some ([], [(''name'', ''mix''), (''id'', ''1'')])), [''one_or_none'']) \<and>
   get_or_create
     (user_factory [''name'']
        (Some (ledger_session (Some ([], [(''name'', ''mix''), (''id'', ''1'')])) False))
        PyNone (Some [(''name'', ''mix'')]))
     playlist_model [] [(''name'', ''mix'')] ledger_start
   = (Inr ([], [(''name'', ''mix'')]),
      \<lparr>world = [''one_or_none'', ''add''],
         trace = [EQueryOneOrNone [] [(''name'', ''mix'')],
           EConstruct [] [(''name'', ''mix'')],
           EAdd ([], [(''name'', ''mix'')])]\<rparr>)"
  by (simp add: get_or_create_def insert_or_recover_def insert_new_def call_def
      user_factory_def ledger_session_def playlist_model_def ledger_start_def)

text \<open>
  Claim C3. When the first lookup of \<^verbatim>\<open>_get_or_create\<close> finds no row, the method
  calls the constructor once, as \<^verbatim>\<open>model_class(*args, **key_fields)\<close>: the keyword
  names are the configured key fields, each with the value popped from the resolved
  keyword arguments, and no other resolved keyword argument is passed. An instance
  the constructor returns is handed to \<^verbatim>\<open>session.add\<close> next, and the method issues no
  \<^verbatim>\<open>flush\<close> and no \<^verbatim>\<open>commit\<close>, whatever happens after the constructor call.
\<close>

theorem get_or_create_constructs_from_key_fields:
  assumes keys: "pop_key_fields (cls_name cls) (sqlalchemy_get_or_create (cls_meta cls)) []
                   kwargs = Inr (key_fields, rest)"
    and sess: "sqlalchemy_session (cls_meta cls) = Some sess"
    and miss: "query_one_or_none sess mc args key_fields (world st) = (Inr None, w1)"
  shows "map fst key_fields = sqlalchemy_get_or_create (cls_meta cls) \<and>
         (\<forall>f \<in> set (sqlalchemy_get_or_create (cls_meta cls)).
            map_of key_fields f = map_of kwargs f) \<and>
         (\<exists>evs. trace (snd (get_or_create cls mc args kwargs st)) =
              trace st @ [EQueryOneOrNone args key_fields, EConstruct args key_fields] @ evs \<and>
            EFlush \<notin> set evs \<and> ECommit \<notin> set evs \<and> (\<forall>a k. EConstruct a k \<notin> set evs) \<and>
            (\<forall>instance w2. construct mc args key_fields w1 = (Inr instance, w2) \<longrightarrow>
               (\<exists>evs'. evs = EAdd instance # evs'))) \<and>
         (\<forall>instance w2 w3.
            construct mc args key_fields w1 = (Inr instance, w2) \<and>
            add sess instance w2 = (Inr (), w3) \<longrightarrow>
            get_or_create cls mc args kwargs st =
              (Inr instance,
               \<lparr>world = w3,
                  trace = trace st @ [EQueryOneOrNone args key_fields,
                    EConstruct args key_fields, EAdd instance]\<rparr>))"
proof -
  let ?st1 = "\<lparr>world = w1, trace = trace st @ [EQueryOneOrNone args key_fields]\<rparr>"
  from pop_key_fields_Inr [OF keys]
  have k: "map fst key_fields = sqlalchemy_get_or_create (cls_meta cls) \<and>
         (\<forall>f \<in> set (sqlalchemy_get_or_create (cls_meta cls)).
            map_of key_fields f = map_of kwargs f)"
    by auto
  obtain r2 st2 where i: "insert_new sess mc args key_fields ?st1 = (r2, st2)"
    by (cases "insert_new sess mc args key_fields ?st1")
  have g: "get_or_create cls mc args kwargs st =
     (case r2 of Inr instance \<Rightarrow> (Inr instance, st2)
      | Inl e \<Rightarrow> if is_IntegrityError e then recover cls sess mc e st2 else (Inl e, st2))"
    using keys sess miss i by (simp add: get_or_create_def insert_or_recover_def call_def)
  have third: "get_or_create cls mc args kwargs st =
      (Inr obj, \<lparr>world = w3, trace = trace st @ [EQueryOneOrNone args key_fields,
                    EConstruct args key_fields, EAdd obj]\<rparr>)"
    if "construct mc args key_fields w1 = (Inr obj, w2)"
      and "add sess obj w2 = (Inr (), w3)" for obj w2 w3
    using insert_new_cases [OF i] that g by auto
  obtain evs2 where t2: "trace st2 = trace ?st1 @ EConstruct args key_fields # evs2"
    and evs2: "evs2 = [] \<or> (\<exists>instance. evs2 = [EAdd instance])"
    and evs2': "\<forall>instance w2. construct mc args key_fields w1 = (Inr instance, w2)
        \<longrightarrow> evs2 = [EAdd instance]"
    using insert_new_cases [OF i] by auto
  obtain r st' where res: "get_or_create cls mc args kwargs st = (r, st')"
    by (cases "get_or_create cls mc args kwargs st")
  have "\<exists>evs3. trace st' = trace st2 @ evs3 \<and>
      (\<forall>ev \<in> set evs3. ev = ERollback \<or> (\<exists>p. ev = EQueryOne p))"
  proof (cases "\<exists>e. r2 = Inl e \<and> is_IntegrityError e")
    case True
    then obtain e where "r2 = Inl e" "is_IntegrityError e" by blast
    with g res have "recover cls sess mc e st2 = (r, st')" by simp
    from recover_trace [OF this] show ?thesis .
  next
    case False
    with g res have "st' = st2" by (auto split: sum.splits if_splits)
    then show ?thesis by simp
  qed
  then obtain evs3 where t3: "trace st' = trace st2 @ evs3"
    and evs3: "\<forall>ev \<in> set evs3. ev = ERollback \<or> (\<exists>p. ev = EQueryOne p)"
    by (elim exE conjE) (rule that, assumption+)
  have second: "\<exists>evs. trace (snd (get_or_create cls mc args kwargs st)) =
              trace st @ [EQueryOneOrNone args key_fields, EConstruct args key_fields] @ evs \<and>
            EFlush \<notin> set evs \<and> ECommit \<notin> set evs \<and> (\<forall>a k. EConstruct a k \<notin> set evs) \<and>
            (\<forall>instance w2. construct mc args key_fields w1 = (Inr instance, w2) \<longrightarrow>
               (\<exists>evs'. evs = EAdd instance # evs'))"
  proof (intro exI [of _ "evs2 @ evs3"] conjI)
    show "trace (snd (get_or_create cls mc args kwargs st)) =
        trace st @ [EQueryOneOrNone args key_fields, EConstruct args key_fields] @ evs2 @ evs3"
      using res t2 t3 by simp
    show "EFlush \<notin> set (evs2 @ evs3)" using evs2 evs3 by auto
    show "ECommit \<notin> set (evs2 @ evs3)" using evs2 evs3 by auto
    show "\<forall>a k. EConstruct a k \<notin> set (evs2 @ evs3)" using evs2 evs3 by auto
    show "\<forall>instance w2. construct mc args key_fields w1 = (Inr instance, w2) \<longrightarrow>
               (\<exists>evs'. evs2 @ evs3 = EAdd instance # evs')"
      using evs2' by auto
  qed
  from k second third show ?thesis by blast
qed

text \<open>
  The same on a session that finds nothing and accepts the new row: \<open>age\<close> is a
  resolved keyword argument and does not reach the constructor.
\<close>

theorem get_or_create_constructs_from_key_fields_witness:
  "get_or_create
     (user_factory [''name'']
        (Some (scripted_session None (Inr ()) (Inl NoResultFound) True (Inr ())))
        (PyStr ''commit'') (Some [(''name'', ''ann'')]))
     user_model [] [(''name'', ''ann''), (''age'', ''7'')] start
   = (Inr ([], [(''name'', ''ann'')]),
      \<lparr>world = 2,
         trace = [EQueryOneOrNone [] [(''name'', ''ann'')], EConstruct [] [(''name'', ''ann'')],
           EAdd ([], [(''name'', ''ann'')])]\<rparr>)"
proof -
  let ?sess = "scripted_session None (Inr ()) (Inl NoResultFound) True (Inr ())"
  let ?cls = "user_factory [''name''] (Some ?sess) (PyStr ''commit'') (Some [(''name'', ''ann'')])"
  have keys: "pop_key_fields (cls_name ?cls) (sqlalchemy_get_or_create (cls_meta ?cls)) []
      [(''name'', ''ann''), (''age'', ''7'')] = Inr ([(''name'', ''ann'')], [(''age'', ''7'')])"
    by (simp add: user_factory_def)
  have sess: "sqlalchemy_session (cls_meta ?cls) = Some ?sess"
    by (simp add: user_factory_def)
  have miss: "query_one_or_none ?sess user_model [] [(''name'', ''ann'')] (world start)
      = (Inr None, 1)"
    by (simp add: scripted_session_def start_def)
  have made: "construct user_model [] [(''name'', ''ann'')] (1 :: nat)
      = (Inr ([], [(''name'', ''ann'')]), 1)"
    by (simp add: user_model_def)
  have added: "add ?sess ([], [(''name'', ''ann'')]) 1 = (Inr (), 2)"
    by (simp add: scripted_session_def)
  from get_or_create_constructs_from_key_fields [OF keys sess miss] made added
  show ?thesis by (simp add: start_def)
qed




text \<open>
  How \<^verbatim>\<open>_create\<close> runs: its steps one by one, and the trace of a call that returns.
\<close>

lemma add_if_untracked_eq:
  "add_if_untracked sess obj st = (r, st') \<Longrightarrow>
     (contains sess obj (world st) \<and> r = Inr () \<and>
        st' = \<lparr>world = world st, trace = trace st @ [EContains obj True]\<rparr>) \<or>
     (\<not> contains sess obj (world st) \<and>
        (\<exists>w. add sess obj (world st) = (r, w) \<and>
           st' = \<lparr>world = w, trace = trace st @ [EContains obj False, EAdd obj]\<rparr>))"
  by (auto simp: add_if_untracked_def call_def Let_def split: prod.splits if_splits)

lemma apply_persistence_eq:
  "apply_persistence sess v st = (r, st') \<Longrightarrow>
     trace st' = trace st @ policy_events v \<and>
     (r = Inr () \<or>
      (v = PyStr SESSION_PERSISTENCE_FLUSH \<and> fst (flush sess (world st)) = r) \<or>
      (v = PyStr SESSION_PERSISTENCE_COMMIT \<and> fst (commit sess (world st)) = r))"
  by (auto simp: apply_persistence_def policy_events_def call_def split: prod.splits if_splits)

lemma create_unfold:
  assumes c: "call (EConstruct args kwargs) (construct mc args kwargs) st = (Inr obj0, st1)"
    and s: "sqlalchemy_session (cls_meta cls) = Some sess"
    and g: "(if sqlalchemy_get_or_create (cls_meta cls) \<noteq> []
      then get_or_create cls mc args kwargs st1 else (Inr obj0, st1)) = (r2, st2)"
  shows "create cls mc args kwargs st =
     (case r2 of Inl e \<Rightarrow> (Inl e, st2)
      | Inr ob \<Rightarrow>
          (case add_if_untracked sess ob st2 of
             (Inl e, st3) \<Rightarrow> (Inl e, st3)
           | (Inr u, st3) \<Rightarrow>
               (case apply_persistence sess (sqlalchemy_session_persistence (cls_meta cls)) st3 of
                  (Inl e, st4) \<Rightarrow> (Inl e, st4)
                | (Inr u', st4) \<Rightarrow> (Inr ob, st4))))"
  unfolding create_def Let_def c s using g by (auto split: if_splits)

lemma create_Inr:
  assumes "create cls mc args kwargs st = (Inr obj, st')"
  shows "\<exists>sess obj0 st1 st2 st3.
     sqlalchemy_session (cls_meta cls) = Some sess \<and>
     call (EConstruct args kwargs) (construct mc args kwargs) st = (Inr obj0, st1) \<and>
     (if sqlalchemy_get_or_create (cls_meta cls) \<noteq> []
      then get_or_create cls mc args kwargs st1 else (Inr obj0, st1)) = (Inr obj, st2) \<and>
     add_if_untracked sess obj st2 = (Inr (), st3) \<and>
     apply_persistence sess (sqlalchemy_session_persistence (cls_meta cls)) st3 = (Inr (), st')"
proof -
  obtain r1 st1 where c: "call (EConstruct args kwargs) (construct mc args kwargs) st = (r1, st1)"
    by (cases "call (EConstruct args kwargs) (construct mc args kwargs) st")
  have "\<exists>obj0. r1 = Inr obj0"
  proof (cases r1)
    case (Inl e)
    with assms c show ?thesis unfolding create_def Let_def by simp
  qed simp
  then obtain obj0 where r1: "r1 = Inr obj0" ..
  have "\<exists>sess. sqlalchemy_session (cls_meta cls) = Some sess"
  proof (cases "sqlalchemy_session (cls_meta cls)")
    case None
    with assms c r1 show ?thesis unfolding create_def Let_def by simp
  qed simp
  then obtain sess where s: "sqlalchemy_session (cls_meta cls) = Some sess" ..
  let ?g = "if sqlalchemy_get_or_create (cls_meta cls) \<noteq> []
      then get_or_create cls mc args kwargs st1 else (Inr obj0, st1)"
  obtain r2 st2 where g: "?g = (r2, st2)" by (cases ?g)
  note unfolded = create_unfold [OF c [unfolded r1] s g]
  from assms unfolded obtain ob where r2: "r2 = Inr ob" by (cases r2) simp_all
  obtain r3 st3 where a: "add_if_untracked sess ob st2 = (r3, st3)"
    by (cases "add_if_untracked sess ob st2")
  from assms unfolded r2 a have r3: "r3 = Inr ()" by (cases r3) simp_all
  obtain r4 st4 where
    p: "apply_persistence sess (sqlalchemy_session_persistence (cls_meta cls)) st3 = (r4, st4)"
    by (cases "apply_persistence sess (sqlalchemy_session_persistence (cls_meta cls)) st3")
  from assms unfolded r2 a r3 p have r4: "r4 = Inr () \<and> ob = obj \<and> st4 = st'"
    by (cases r4) simp_all
  show ?thesis
    apply (rule exI [of _ sess], rule exI [of _ obj0], rule exI [of _ st1],
        rule exI [of _ st2], rule exI [of _ st3])
    using c r1 s g r2 a r3 p r4 by simp
qed

lemma create_trace:
  assumes "create cls mc args kwargs (st :: ('s, 'o, 'v) state) = (Inr obj, st')"
  obtains sess and st2 :: "('s, 'o, 'v) state" and evs where
    "sqlalchemy_session (cls_meta cls) = Some sess"
    "trace st2 = trace st @ evs" "EFlush \<notin> set evs" "ECommit \<notin> set evs"
    "contains sess obj (world st2) \<or> (\<exists>w. add sess obj (world st2) = (Inr (), w))"
    "trace st' = trace st2 @ EContains obj (contains sess obj (world st2)) #
       (if contains sess obj (world st2) then [] else [EAdd obj]) @
       policy_events (sqlalchemy_session_persistence (cls_meta cls))"
proof -
  from create_Inr [OF assms] obtain sess obj0 st1 st2 st3 where
    s: "sqlalchemy_session (cls_meta cls) = Some sess" and
    c: "call (EConstruct args kwargs) (construct mc args kwargs) st = (Inr obj0, st1)" and
    g: "(if sqlalchemy_get_or_create (cls_meta cls) \<noteq> []
      then get_or_create cls mc args kwargs st1 else (Inr obj0, st1)) = (Inr obj, st2)" and
    a: "add_if_untracked sess obj st2 = (Inr (), st3)" and
    p: "apply_persistence sess (sqlalchemy_session_persistence (cls_meta cls)) st3 = (Inr (), st')"
    by blast
  from c have t1: "trace st1 = trace st @ [EConstruct args kwargs]" by (auto simp: call_eq)
  have "\<exists>evs. trace st2 = trace st1 @ evs \<and> EFlush \<notin> set evs \<and> ECommit \<notin> set evs"
  proof (cases "sqlalchemy_get_or_create (cls_meta cls) \<noteq> []")
    case True
    with g have "get_or_create cls mc args kwargs st1 = (Inr obj, st2)" by simp
    from get_or_create_trace [OF this] show ?thesis by blast
  next
    case False
    with g show ?thesis by simp
  qed
  then obtain evs where t2: "trace st2 = trace st1 @ evs"
    and evs: "EFlush \<notin> set evs" "ECommit \<notin> set evs" by blast
  let ?b = "contains sess obj (world st2)"
  from add_if_untracked_eq [OF a]
  have t3: "trace st3 = trace st2 @ EContains obj ?b # (if ?b then [] else [EAdd obj])"
    and ad: "?b \<or> (\<exists>w. add sess obj (world st2) = (Inr (), w))"
    by auto
  from apply_persistence_eq [OF p]
  have t4: "trace st' = trace st3 @ policy_events (sqlalchemy_session_persistence (cls_meta cls))"
    by simp
  show thesis
  proof (rule that [of sess st2 "EConstruct args kwargs # evs"])
    show "trace st2 = trace st @ EConstruct args kwargs # evs" using t1 t2 by simp
    show "trace st' = trace st2 @ EContains obj ?b # (if ?b then [] else [EAdd obj]) @
       policy_events (sqlalchemy_session_persistence (cls_meta cls))"
      using t3 t4 by simp
  qed (use s evs ad in simp_all)
qed

lemma state_eq:
  "(st' = \<lparr>world = w, trace = t\<rparr>) \<longleftrightarrow> world st' = w \<and> trace st' = t"
  for st' :: "('s, 'o, 'v) state"
  by (cases st') auto

lemma apply_persistence_Inr:
  "apply_persistence sess v st = (Inr (), st') \<longleftrightarrow>
     (if v = PyStr ''flush''
      then flush sess (world st) = (Inr (), world st') \<and> trace st' = trace st @ [EFlush]
      else if v = PyStr ''commit''
      then commit sess (world st) = (Inr (), world st') \<and> trace st' = trace st @ [ECommit]
      else st' = st)"
  for st st' :: "('s, 'o, 'v) state"
  by (auto simp: apply_persistence_def call_def state_eq SESSION_PERSISTENCE_FLUSH_def
      SESSION_PERSISTENCE_COMMIT_def split: prod.splits)

lemma get_or_create_ignores_persistence:
  "get_or_create
     (cls\<lparr>cls_meta := (cls_meta cls)\<lparr>sqlalchemy_session_persistence := v\<rparr>\<rparr>) mc args kwargs st
   = get_or_create cls mc args kwargs st"
proof -
  have r: "recover
      (cls\<lparr>cls_meta := (cls_meta cls)\<lparr>sqlalchemy_session_persistence := v\<rparr>\<rparr>) sess mc e s
    = recover cls sess mc e s" for sess e s
    by (simp add: recover_def cong: option.case_cong prod.case_cong sum.case_cong)
  have "insert_or_recover
      (cls\<lparr>cls_meta := (cls_meta cls)\<lparr>sqlalchemy_session_persistence := v\<rparr>\<rparr>) sess mc args kf s
    = insert_or_recover cls sess mc args kf s" for sess kf s
    by (auto simp: insert_or_recover_def r split: prod.splits sum.splits)
  then show ?thesis
    by (auto simp: get_or_create_def split: prod.splits sum.splits option.splits)
qed

text \<open>
  Claim C6. Take a call of \<^verbatim>\<open>_create\<close> that returns an object. The same call on the same
  class with the policy \<^verbatim>\<open>None\<close> returns that object too, in a state reached without
  any flush or commit, after the check \<^verbatim>\<open>obj in session\<close>. Under \<^verbatim>\<open>'flush'\<close> the call
  goes on from that state with one \<^verbatim>\<open>session.flush()\<close>, which returns, and ends in
  the world the flush left; under \<^verbatim>\<open>'commit'\<close> it goes on with one
  \<^verbatim>\<open>session.commit()\<close> likewise; under \<^verbatim>\<open>None\<close> (or any other value) it ends in that
  state.
\<close>

theorem create_applies_persistence_policy:
  assumes "create cls mc args kwargs (st :: ('s, 'o, 'v) state) = (Inr obj, st')"
  shows "\<exists>sess (st3 :: ('s, 'o, 'v) state).
     sqlalchemy_session (cls_meta cls) = Some sess \<and>
     create (cls\<lparr>cls_meta := (cls_meta cls)\<lparr>sqlalchemy_session_persistence := PyNone\<rparr>\<rparr>)
       mc args kwargs st = (Inr obj, st3) \<and>
     (\<exists>evs b. trace st3 = trace st @ evs \<and> EContains obj b \<in> set evs \<and>
        EFlush \<notin> set evs \<and> ECommit \<notin> set evs) \<and>
     (if sqlalchemy_session_persistence (cls_meta cls) = PyStr ''flush''
      then flush sess (world st3) = (Inr (), world st') \<and> trace st' = trace st3 @ [EFlush]
      else if sqlalchemy_session_persistence (cls_meta cls) = PyStr ''commit''
      then commit sess (world st3) = (Inr (), world st') \<and> trace st' = trace st3 @ [ECommit]
      else st' = st3)"
proof -
  let ?cls0 = "cls\<lparr>cls_meta := (cls_meta cls)\<lparr>sqlalchemy_session_persistence := PyNone\<rparr>\<rparr>"
  from create_Inr [OF assms] obtain sess obj0 st1 st2 st3 where
    s: "sqlalchemy_session (cls_meta cls) = Some sess" and
    c: "call (EConstruct args kwargs) (construct mc args kwargs) st = (Inr obj0, st1)" and
    g: "(if sqlalchemy_get_or_create (cls_meta cls) \<noteq> []
      then get_or_create cls mc args kwargs st1 else (Inr obj0, st1)) = (Inr obj, st2)" and
    a: "add_if_untracked sess obj st2 = (Inr (), st3)" and
    p: "apply_persistence sess (sqlalchemy_session_persistence (cls_meta cls)) st3 = (Inr (), st')"
    by (elim exE conjE) (rule that, assumption+)
  have s0: "sqlalchemy_session (cls_meta ?cls0) = Some sess" using s by simp
  have g0: "(if sqlalchemy_get_or_create (cls_meta ?cls0) \<noteq> []
      then get_or_create ?cls0 mc args kwargs st1 else (Inr obj0, st1)) = (Inr obj, st2)"
    using g by (auto simp: get_or_create_ignores_persistence split: if_splits)
  have none: "create ?cls0 mc args kwargs st = (Inr obj, st3)"
    unfolding create_unfold [OF c s0 g0] using a
    by (simp add: apply_persistence_def SESSION_PERSISTENCE_FLUSH_def
        SESSION_PERSISTENCE_COMMIT_def)
  from none obtain sess' and st2' :: "('s, 'o, 'v) state" and evs where
    "sqlalchemy_session (cls_meta ?cls0) = Some sess'" and
    t2: "trace st2' = trace st @ evs" and evs: "EFlush \<notin> set evs" "ECommit \<notin> set evs" and
    "contains sess' obj (world st2') \<or> (\<exists>w. add sess' obj (world st2') = (Inr (), w))" and
    t: "trace st3 = trace st2' @ EContains obj (contains sess' obj (world st2')) #
       (if contains sess' obj (world st2') then [] else [EAdd obj]) @
       policy_events (sqlalchemy_session_persistence (cls_meta ?cls0))"
    by (rule create_trace)
  let ?b = "contains sess' obj (world st2')"
  let ?evs = "evs @ EContains obj ?b # (if ?b then [] else [EAdd obj])"
  have "trace st3 = trace st @ ?evs" using t t2 by (simp add: policy_events_def)
  moreover have "EContains obj ?b \<in> set ?evs" by simp
  moreover have "EFlush \<notin> set ?evs" "ECommit \<notin> set ?evs" using evs by auto
  ultimately have before: "\<exists>evs b. trace st3 = trace st @ evs \<and> EContains obj b \<in> set evs \<and>
        EFlush \<notin> set evs \<and> ECommit \<notin> set evs"
    by blast
  from p have after: "if sqlalchemy_session_persistence (cls_meta cls) = PyStr ''flush''
      then flush sess (world st3) = (Inr (), world st') \<and> trace st' = trace st3 @ [EFlush]
      else if sqlalchemy_session_persistence (cls_meta cls) = PyStr ''commit''
      then commit sess (world st3) = (Inr (), world st') \<and> trace st' = trace st3 @ [ECommit]
      else st' = st3"
    by (simp only: apply_persistence_Inr)
  show ?thesis
    by (rule exI [of _ sess], rule exI [of _ st3]) (use s none before after in blast)
qed

text \<open>
  Three plain inserts on the session that keeps the names of the calls it served:
  under \<^verbatim>\<open>'commit'\<close> it served \<^verbatim>\<open>add\<close> and then \<^verbatim>\<open>commit\<close>, under \<^verbatim>\<open>'flush'\<close> it served
  \<^verbatim>\<open>add\<close> and then \<^verbatim>\<open>flush\<close>, under \<^verbatim>\<open>None\<close> it served \<^verbatim>\<open>add\<close> alone.
\<close>

theorem create_applies_persistence_policy_witness:
  "create (user_factory [] (Some (ledger_session None False)) (PyStr ''commit'') None)
     user_model [] [(''name'', ''ann'')] ledger_start
   = (Inr ([], [(''name'', ''ann'')]),
      \<lparr>world = [''add'', ''commit''],
         trace = [EConstruct [] [(''name'', ''ann'')], EContains ([], [(''name'', ''ann'')]) False,
           EAdd ([], [(''name'', ''ann'')]), ECommit]\<rparr>) \<and>
   create (user_factory [] (Some (ledger_session None False)) (PyStr ''flush'') None)
     user_model [] [(''name'', ''ann'')] ledger_start
   = (Inr ([], [(''name'', ''ann'')]),
      \<lparr>world = [''add'', ''flush''],
         trace = [EConstruct [] [(''name'', ''ann'')], EContains ([], [(''name'', ''ann'')]) False,
           EAdd ([], [(''name'', ''ann'')]), EFlush]\<rparr>) \<and>
   create (user_factory [] (Some (ledger_session None False)) PyNone None)
     user_model [] [(''name'', ''ann'')] ledger_start
   = (Inr ([], [(''name'', ''ann'')]),
      \<lparr>world = [''add''],
         trace = [EConstruct [] [(''name'', ''ann'')], EContains ([], [(''name'', ''ann'')]) False,
           EAdd ([], [(''name'', ''ann'')])]\<rparr>) \<and>
   commit (ledger_session None False) [''add''] = (Inr (), [''add'', ''commit'']) \<and>
   flush (ledger_session None False) [''add''] = (Inr (), [''add'', ''flush''])"
proof -
  let ?sess = "ledger_session None False"
  let ?obj = "([], [(''name'', ''ann'')]) :: row"
  let ?before = "[EConstruct [] [(''name'', ''ann'')], EContains ?obj False, EAdd ?obj]
    :: (row, string) event list"
  let ?cls = "\<lambda>v. user_factory [] (Some ?sess) v None"
  have committed: "create (?cls (PyStr ''commit'')) user_model [] [(''name'', ''ann'')] ledger_start
     = (Inr ?obj, \<lparr>world = [''add'', ''commit''], trace = ?before @ [ECommit]\<rparr>)"
    by (simp add: create_def add_if_untracked_def apply_persistence_def call_def
        user_factory_def ledger_session_def user_model_def ledger_start_def
        SESSION_PERSISTENCE_FLUSH_def SESSION_PERSISTENCE_COMMIT_def)
  have flushed: "create (?cls (PyStr ''flush'')) user_model [] [(''name'', ''ann'')] ledger_start
     = (Inr ?obj, \<lparr>world = [''add'', ''flush''], trace = ?before @ [EFlush]\<rparr>)"
    by (simp add: create_def add_if_untracked_def apply_persistence_def call_def
        user_factory_def ledger_session_def user_model_def ledger_start_def
        SESSION_PERSISTENCE_FLUSH_def SESSION_PERSISTENCE_COMMIT_def)
  have plain: "create (?cls PyNone) user_model [] [(''name'', ''ann'')] ledger_start
     = (Inr ?obj, \<lparr>world = [''add''], trace = ?before\<rparr>)"
    by (simp add: create_def add_if_untracked_def apply_persistence_def call_def
        user_factory_def ledger_session_def user_model_def ledger_start_def
        SESSION_PERSISTENCE_FLUSH_def SESSION_PERSISTENCE_COMMIT_def)
  have none: "(?cls v)\<lparr>cls_meta := (cls_meta (?cls v))\<lparr>sqlalchemy_session_persistence := PyNone\<rparr>\<rparr>
      = ?cls PyNone" for v
    by (simp add: user_factory_def)
  have sess: "sqlalchemy_session (cls_meta (?cls v)) = Some ?sess" for v
    by (simp add: user_factory_def)
  have policy: "sqlalchemy_session_persistence (cls_meta (?cls v)) = v" for v
    by (simp add: user_factory_def)
  from create_applies_persistence_policy [OF committed]
  have c: "commit ?sess [''add''] = (Inr (), [''add'', ''commit''])"
    unfolding none sess policy plain by auto
  from create_applies_persistence_policy [OF flushed]
  have f: "flush ?sess [''add''] = (Inr (), [''add'', ''flush''])"
    unfolding none sess policy plain by auto
  from committed flushed plain c f show ?thesis by simp
qed

text \<open>
  Claim C8. Take a call of \<^verbatim>\<open>_create\<close> that returns an object. A session is configured;
  the constructor call of line 101 returned; the object returned is the one it made
  when no key field is configured, and the one \<^verbatim>\<open>_get_or_create\<close> returned otherwise.
  In the state so reached, either the session answered that it holds the object, or
  it answered that it does not and \<^verbatim>\<open>_create\<close> called \<^verbatim>\<open>session.add\<close> on it, which
  returned. The persistence policy was applied after that, on the world the check or
  the \<^verbatim>\<open>add\<close> left, and the call ends in the world and with the trace that gives.
\<close>

theorem create_result_tracked:
  assumes "create cls mc args kwargs (st :: ('s, 'o, 'v) state) = (Inr obj, st')"
  shows "\<exists>sess obj0 w1 (st2 :: ('s, 'o, 'v) state) b w3.
     sqlalchemy_session (cls_meta cls) = Some sess \<and>
     construct mc args kwargs (world st) = (Inr obj0, w1) \<and>
     (if sqlalchemy_get_or_create (cls_meta cls) \<noteq> []
      then get_or_create cls mc args kwargs
             \<lparr>world = w1, trace = trace st @ [EConstruct args kwargs]\<rparr> = (Inr obj, st2)
      else obj = obj0 \<and> st2 = \<lparr>world = w1, trace = trace st @ [EConstruct args kwargs]\<rparr>) \<and>
     b = contains sess obj (world st2) \<and>
     (if b then w3 = world st2 else add sess obj (world st2) = (Inr (), w3)) \<and>
     (if sqlalchemy_session_persistence (cls_meta cls) = PyStr ''flush''
      then flush sess w3 = (Inr (), world st') \<and>
        trace st' = trace st2 @ EContains obj b # (if b then [] else [EAdd obj]) @ [EFlush]
      else if sqlalchemy_session_persistence (cls_meta cls) = PyStr ''commit''
      then commit sess w3 = (Inr (), world st') \<and>
        trace st' = trace st2 @ EContains obj b # (if b then [] else [EAdd obj]) @ [ECommit]
      else world st' = w3 \<and>
        trace st' = trace st2 @ EContains obj b # (if b then [] else [EAdd obj]))"
proof -
  from create_Inr [OF assms] obtain sess obj0 st1 st2 st3 where
    s: "sqlalchemy_session (cls_meta cls) = Some sess" and
    c: "call (EConstruct args kwargs) (construct mc args kwargs) st = (Inr obj0, st1)" and
    g: "(if sqlalchemy_get_or_create (cls_meta cls) \<noteq> []
      then get_or_create cls mc args kwargs st1 else (Inr obj0, st1)) = (Inr obj, st2)" and
    a: "add_if_untracked sess obj st2 = (Inr (), st3)" and
    p: "apply_persistence sess (sqlalchemy_session_persistence (cls_meta cls)) st3 = (Inr (), st')"
    by (elim exE conjE) (rule that, assumption+)
  from c obtain w1 where c1: "construct mc args kwargs (world st) = (Inr obj0, w1)"
    and st1: "st1 = \<lparr>world = w1, trace = trace st @ [EConstruct args kwargs]\<rparr>"
    by (auto simp: call_eq)
  have g': "if sqlalchemy_get_or_create (cls_meta cls) \<noteq> []
      then get_or_create cls mc args kwargs
             \<lparr>world = w1, trace = trace st @ [EConstruct args kwargs]\<rparr> = (Inr obj, st2)
      else obj = obj0 \<and> st2 = \<lparr>world = w1, trace = trace st @ [EConstruct args kwargs]\<rparr>"
    using g st1 by (auto split: if_splits)
  let ?b = "contains sess obj (world st2)"
  from add_if_untracked_eq [OF a] obtain w3 where
    w3: "if ?b then w3 = world st2 else add sess obj (world st2) = (Inr (), w3)" and
    st3: "world st3 = w3"
      "trace st3 = trace st2 @ EContains obj ?b # (if ?b then [] else [EAdd obj])"
    by auto
  from p have after: "if sqlalchemy_session_persistence (cls_meta cls) = PyStr ''flush''
      then flush sess w3 = (Inr (), world st') \<and>
        trace st' = trace st2 @ EContains obj ?b # (if ?b then [] else [EAdd obj]) @ [EFlush]
      else if sqlalchemy_session_persistence (cls_meta cls) = PyStr ''commit''
      then commit sess w3 = (Inr (), world st') \<and>
        trace st' = trace st2 @ EContains obj ?b # (if ?b then [] else [EAdd obj]) @ [ECommit]
      else world st' = w3 \<and>
        trace st' = trace st2 @ EContains obj ?b # (if ?b then [] else [EAdd obj])"
    unfolding apply_persistence_Inr using st3 by (auto split: if_splits)
  show ?thesis
    by (rule exI [of _ sess], rule exI [of _ obj0], rule exI [of _ w1], rule exI [of _ st2],
        rule exI [of _ ?b], rule exI [of _ w3])
      (use s c1 g' w3 after in blast)
qed

text \<open>
  Two runs on the session that keeps the names of the calls it served. A plain insert
  of \<open>bea\<close>, which the session does not hold: it served \<^verbatim>\<open>add\<close> and then \<^verbatim>\<open>flush\<close>.
  And a get-or-create that finds the row of \<open>bea\<close>, which the session holds: it served
  the lookup and then \<^verbatim>\<open>commit\<close>, and no \<^verbatim>\<open>add\<close>.
\<close>

theorem create_result_tracked_witness:
  "create (user_factory [] (Some (ledger_session None False)) (PyStr ''flush'') None)
     user_model [] [(''name'', ''bea'')] ledger_start
   = (Inr ([], [(''name'', ''bea'')]),
      \<lparr>world = [''add'', ''flush''],
         trace = [EConstruct [] [(''name'', ''bea'')], EContains ([], [(''name'', ''bea'')]) False,
           EAdd ([], [(''name'', ''bea'')]), EFlush]\<rparr>) \<and>
   (\<exists>w3. add (ledger_session None False) ([], [(''name'', ''bea'')]) [] = (Inr (), w3) \<and>
      flush (ledger_session None False) w3 = (Inr (), [''add'', ''flush''])) \<and>
   create
     (user_factory [''name''] (Some (ledger_session (Some ([''7''], [(''name'', ''bea'')])) True))
        (PyStr ''commit'') (Some [(''name'', ''bea'')]))
     user_model [] [(''name'', ''bea'')] ledger_start
   = (Inr ([''7''], [(''name'', ''bea'')]),
      \<lparr>world = [''one_or_none'', ''commit''],
         trace = [EConstruct [] [(''name'', ''bea'')], EQueryOneOrNone [] [(''name'', ''bea'')],
           EContains ([''7''], [(''name'', ''bea'')]) True, ECommit]\<rparr>) \<and>
   contains (ledger_session (Some ([''7''], [(''name'', ''bea'')])) True)
     ([''7''], [(''name'', ''bea'')]) [''one_or_none'']"
proof -
  let ?new = "([], [(''name'', ''bea'')]) :: row"
  let ?old = "([''7''], [(''name'', ''bea'')]) :: row"
  let ?plain = "user_factory [] (Some (ledger_session None False)) (PyStr ''flush'') None"
  let ?keyed = "user_factory [''name''] (Some (ledger_session (Some ?old) True))
    (PyStr ''commit'') (Some [(''name'', ''bea'')])"
  have inserted: "create ?plain user_model [] [(''name'', ''bea'')] ledger_start
     = (Inr ?new,
        \<lparr>world = [''add'', ''flush''],
           trace = [EConstruct [] [(''name'', ''bea'')], EContains ?new False, EAdd ?new,
             EFlush]\<rparr>)"
    by (simp add: create_def add_if_untracked_def apply_persistence_def call_def
        user_factory_def ledger_session_def user_model_def ledger_start_def
        SESSION_PERSISTENCE_FLUSH_def SESSION_PERSISTENCE_COMMIT_def)
  have found: "create ?keyed user_model [] [(''name'', ''bea'')] ledger_start
     = (Inr ?old,
        \<lparr>world = [''one_or_none'', ''commit''],
           trace = [EConstruct [] [(''name'', ''bea'')], EQueryOneOrNone [] [(''name'', ''bea'')],
             EContains ?old True, ECommit]\<rparr>)"
    by (simp add: create_def get_or_create_def add_if_untracked_def apply_persistence_def
        call_def user_factory_def ledger_session_def user_model_def ledger_start_def
        SESSION_PERSISTENCE_FLUSH_def SESSION_PERSISTENCE_COMMIT_def)
  have run: "get_or_create ?keyed user_model [] [(''name'', ''bea'')]
      \<lparr>world = [], trace = [EConstruct [] [(''name'', ''bea'')]]\<rparr>
    = (Inr ?old,
       \<lparr>world = [''one_or_none''],
          trace = [EConstruct [] [(''name'', ''bea'')],
            EQueryOneOrNone [] [(''name'', ''bea'')]]\<rparr>)"
    by (simp add: get_or_create_def call_def user_factory_def ledger_session_def
        user_model_def)
  from create_result_tracked [OF inserted]
  have added: "\<exists>w3. add (ledger_session None False) ?new [] = (Inr (), w3) \<and>
      flush (ledger_session None False) w3 = (Inr (), [''add'', ''flush''])"
    by (auto simp: user_factory_def user_model_def ledger_start_def
        ledger_session_def [where tracked = False])
  from create_result_tracked [OF found]
  have held: "contains (ledger_session (Some ?old) True) ?old [''one_or_none'']"
    by (auto simp: user_factory_def run user_model_def ledger_start_def
        ledger_session_def [where tracked = True])
  from inserted added found held show ?thesis by simp
qed

text \<open>
  A listed key field that the keyword arguments do not hold makes the loop of lines
  59 to 66 raise, whatever the model class, the arguments and the state.
\<close>

lemma get_or_create_missing:
  assumes f: "f \<in> set (sqlalchemy_get_or_create (cls_meta cls))" and absent: "map_of kwargs f = None"
  shows "\<exists>g \<in> set (sqlalchemy_get_or_create (cls_meta cls)).
     (distinct (sqlalchemy_get_or_create (cls_meta cls)) \<longrightarrow>
        List.find (\<lambda>h. map_of kwargs h = None) (sqlalchemy_get_or_create (cls_meta cls)) = Some g) \<and>
     (\<forall>mc args st. get_or_create cls mc args kwargs st =
       (Inl (FactoryError (missing_field_message g (cls_name cls))), st))"
proof -
  let ?fs = "sqlalchemy_get_or_create (cls_meta cls)"
  let ?pop = "pop_key_fields (cls_name cls) ?fs [] kwargs"
  have "\<exists>e. ?pop = Inl e"
  proof (cases ?pop)
    case (Inr p)
    obtain kf rest where "p = (kf, rest)" by (cases p)
    with Inr pop_key_fields_Inr [of "cls_name cls" ?fs "[]" kwargs kf rest]
    have "set ?fs \<subseteq> fst ` set kwargs" by simp
    with f have "f \<in> fst ` set kwargs" by auto
    with absent show ?thesis by (simp add: map_of_eq_None_iff)
  qed simp
  then obtain e where e: "?pop = Inl e" ..
  from pop_key_fields_Inl [OF e] obtain g where g: "g \<in> set ?fs"
    and eg: "e = FactoryError (missing_field_message g (cls_name cls))" by blast
  have "List.find (\<lambda>h. map_of kwargs h = None) ?fs = Some g" if d: "distinct ?fs"
  proof -
    from f absent obtain g' where g': "List.find (\<lambda>h. map_of kwargs h = None) ?fs = Some g'"
      by (cases "List.find (\<lambda>h. map_of kwargs h = None) ?fs") (auto simp: find_None_iff)
    from pop_key_fields_distinct [OF d, of "cls_name cls" "[]" kwargs] g' e eg
    have "missing_field_message g (cls_name cls) = missing_field_message g' (cls_name cls)"
      by simp
    then have "g = g'" by (simp add: missing_field_message_def)
    with g' show ?thesis by simp
  qed
  moreover have "get_or_create cls mc args kwargs st =
       (Inl (FactoryError (missing_field_message g (cls_name cls))), st)" for mc args st
    using e eg by (simp add: get_or_create_def)
  ultimately show ?thesis using g by blast
qed

text \<open>
  Claim C4, as the code has it. If \<^verbatim>\<open>sqlalchemy_get_or_create\<close> lists a field that the
  resolved keyword arguments do not hold, \<^verbatim>\<open>_get_or_create\<close> raises \<^verbatim>\<open>FactoryError\<close>
  with the message of lines 63 to 65, which names a listed field (the first one
  absent from the keyword arguments, when no name is listed twice) and the factory
  class; the state is untouched, so nothing was asked of the session. \<^verbatim>\<open>_create\<close>
  calls the constructor first and then, when that call returns, raises this same
  \<^verbatim>\<open>FactoryError\<close> if a session is configured, but the \<^verbatim>\<open>RuntimeError\<close> of line 103
  if none is; in both cases the constructor call is the only event.
\<close>

theorem create_missing_key_field:
  assumes f: "f \<in> set (sqlalchemy_get_or_create (cls_meta cls))" and absent: "map_of kwargs f = None"
  shows "\<exists>g \<in> set (sqlalchemy_get_or_create (cls_meta cls)).
     (distinct (sqlalchemy_get_or_create (cls_meta cls)) \<longrightarrow>
        List.find (\<lambda>h. map_of kwargs h = None) (sqlalchemy_get_or_create (cls_meta cls)) = Some g) \<and>
     get_or_create cls mc args kwargs st =
       (Inl (FactoryError (missing_field_message g (cls_name cls))), st) \<and>
     (\<forall>obj0 w. construct mc args kwargs (world st) = (Inr obj0, w) \<longrightarrow>
        create cls mc args kwargs st =
          (Inl (if sqlalchemy_session (cls_meta cls) = None
                then RuntimeError ''No session provided.''
                else FactoryError (missing_field_message g (cls_name cls))),
           \<lparr>world = w, trace = trace st @ [EConstruct args kwargs]\<rparr>))"
proof -
  let ?st1 = "\<lambda>w. \<lparr>world = w, trace = trace st @ [EConstruct args kwargs]\<rparr>"
  have ne: "sqlalchemy_get_or_create (cls_meta cls) \<noteq> []" using f by auto
  from get_or_create_missing [OF f absent]
  obtain g where g: "g \<in> set (sqlalchemy_get_or_create (cls_meta cls))"
    and fi: "distinct (sqlalchemy_get_or_create (cls_meta cls)) \<longrightarrow>
        List.find (\<lambda>h. map_of kwargs h = None) (sqlalchemy_get_or_create (cls_meta cls)) = Some g"
    and r: "\<And>mc args s. get_or_create cls mc args kwargs s =
       (Inl (FactoryError (missing_field_message g (cls_name cls))), s)"
    by blast
  have "create cls mc args kwargs st =
          (Inl (if sqlalchemy_session (cls_meta cls) = None
                then RuntimeError ''No session provided.''
                else FactoryError (missing_field_message g (cls_name cls))), ?st1 w)"
    if c: "construct mc args kwargs (world st) = (Inr obj0, w)" for obj0 w
    using c ne r [of mc args "?st1 w"]
    by (cases "sqlalchemy_session (cls_meta cls)") (simp_all add: create_def call_def)
  with g fi r [of mc args st] show ?thesis by blast
qed

text \<open>
  On a factory with a session and the key field \<open>name\<close>, created without \<open>name\<close>.
\<close>

theorem create_missing_key_field_witness:
  "create
     (user_factory [''name'']
        (Some (scripted_session None (Inr ()) (Inl NoResultFound) False (Inr ()))) PyNone None)
     user_model [] [(''age'', ''7'')] start
   = (Inl (FactoryError
        (''sqlalchemy_get_or_create - Unable to find initialization value for '' @
         [CHR 0x27] @ ''name'' @ [CHR 0x27] @ '' in factory UserFactory'')),
      \<lparr>world = 0, trace = [EConstruct [] [(''age'', ''7'')]]\<rparr>)"
proof -
  let ?cls = "user_factory [''name'']
    (Some (scripted_session None (Inr ()) (Inl NoResultFound) False (Inr ()))) PyNone None"
  have f: "''name'' \<in> set (sqlalchemy_get_or_create (cls_meta ?cls))"
    by (simp add: user_factory_def)
  have absent: "map_of [(''age'', ''7'')] ''name'' = None"
    by simp
  have made: "construct user_model [] [(''age'', ''7'')] (world start)
      = (Inr ([], [(''age'', ''7'')]), 0)"
    by (simp add: user_model_def start_def)
  from create_missing_key_field [OF f absent, of user_model "[]" start] made
  show ?thesis
    by (simp add: user_factory_def start_def missing_field_message_def)
qed

text \<open>
  Claim C4 as stated fails for \<^verbatim>\<open>_create\<close>: the same factory without a session raises
  \<^verbatim>\<open>RuntimeError\<close>, not \<^verbatim>\<open>FactoryError\<close>, since line 102 comes before line 105.
\<close>

theorem create_missing_key_field_without_session:
  "''name'' \<in> set (sqlalchemy_get_or_create (cls_meta (user_factory [''name''] None PyNone None)))
   \<and> map_of [(''age'', ''7'')] ''name'' = None
   \<and> create (user_factory [''name''] None PyNone None) user_model [] [(''age'', ''7'')] start
     = (Inl (RuntimeError ''No session provided.''),
        \<lparr>world = 0, trace = [EConstruct [] [(''age'', ''7'')]]\<rparr>)"
  by (simp add: create_def call_def user_factory_def user_model_def start_def)





text \<open>
  Claim C9, as the code has it. Every constructor call that \<^verbatim>\<open>_get_or_create\<close> issues
  has the positional arguments of the call and, as keyword arguments, exactly the
  key fields: the keyword names are the names of \<^verbatim>\<open>sqlalchemy_get_or_create\<close>, in that
  order, each with its value from the resolved keyword arguments, and no other
  resolved keyword argument is passed.
\<close>

theorem get_or_create_constructor_keywords:
  assumes run: "get_or_create cls mc args kwargs (st :: ('s, 'o, 'v) state) = (r, st')"
    and called: "EConstruct a k \<in> set (drop (length (trace st)) (trace st'))"
  shows "a = args \<and> map fst k = sqlalchemy_get_or_create (cls_meta cls) \<and>
         (\<forall>f. map_of k f =
            (if f \<in> set (sqlalchemy_get_or_create (cls_meta cls)) then map_of kwargs f else None))"
proof -
  from get_or_create_trace [OF run] obtain evs where
    t: "trace st' = trace st @ evs" and
    c: "\<forall>ev \<in> set evs. ev \<noteq> EFlush \<and> ev \<noteq> ECommit \<and> (\<forall>obj b. ev \<noteq> EContains obj b) \<and>
        (\<forall>a k. ev = EConstruct a k \<longrightarrow> a = args \<and>
           (\<exists>rest. pop_key_fields (cls_name cls) (sqlalchemy_get_or_create (cls_meta cls)) []
              kwargs = Inr (k, rest)))"
    by (elim exE conjE) (rule that, assumption+)
  from called t have "EConstruct a k \<in> set evs" by simp
  from c [rule_format, OF this] have "a = args \<and>
      (\<exists>rest. pop_key_fields (cls_name cls) (sqlalchemy_get_or_create (cls_meta cls)) []
              kwargs = Inr (k, rest))"
    by simp
  then obtain rest where a: "a = args" and
    p: "pop_key_fields (cls_name cls) (sqlalchemy_get_or_create (cls_meta cls)) [] kwargs
        = Inr (k, rest)"
    by (elim exE conjE) (rule that, assumption+)
  from pop_key_fields_Inr [OF p]
  have "map fst k = sqlalchemy_get_or_create (cls_meta cls)"
    and "\<forall>f. map_of k f =
      (if f \<in> set (sqlalchemy_get_or_create (cls_meta cls)) then map_of kwargs f else None)"
    by simp_all
  with a show ?thesis by simp
qed

text \<open>
  With the key fields \<open>name\<close> and \<open>mail\<close>: both reach the constructor, \<open>age\<close> does not.
\<close>

theorem get_or_create_constructor_keywords_witness:
  "get_or_create
     (user_factory [''name'', ''mail'']
        (Some (scripted_session None (Inr ()) (Inl NoResultFound) False (Inr ()))) PyNone None)
     user_model [] [(''age'', ''9''), (''mail'', ''c@y''), (''name'', ''cy'')] start
   = (Inr ([], [(''name'', ''cy''), (''mail'', ''c@y'')]),
      \<lparr>world = 2,
         trace = [EQueryOneOrNone [] [(''name'', ''cy''), (''mail'', ''c@y'')],
           EConstruct [] [(''name'', ''cy''), (''mail'', ''c@y'')],
           EAdd ([], [(''name'', ''cy''), (''mail'', ''c@y'')])]\<rparr>) \<and>
   map fst [(''name'', ''cy''), (''mail'', ''c@y'')] = [''name'', ''mail''] \<and>
   map_of [(''name'', ''cy''), (''mail'', ''c@y'')] ''age'' = None"
proof -
  let ?cls = "user_factory [''name'', ''mail'']
    (Some (scripted_session None (Inr ()) (Inl NoResultFound) False (Inr ()))) PyNone None"
  let ?kf = "[(''name'', ''cy''), (''mail'', ''c@y'')]"
  let ?st' = "\<lparr>world = 2,
     trace = [EQueryOneOrNone [] ?kf, EConstruct [] ?kf, EAdd ([], ?kf)]\<rparr>
    :: (nat, row, string) state"
  have run: "get_or_create ?cls user_model []
      [(''age'', ''9''), (''mail'', ''c@y''), (''name'', ''cy'')] start = (Inr ([], ?kf), ?st')"
    by (simp add: get_or_create_def insert_or_recover_def insert_new_def call_def user_factory_def
        scripted_session_def user_model_def start_def)
  have called: "EConstruct [] ?kf \<in> set (drop (length (trace start)) (trace ?st'))"
    by (simp add: start_def)
  have fs: "sqlalchemy_get_or_create (cls_meta ?cls) = [''name'', ''mail'']"
    by (simp add: user_factory_def)
  from get_or_create_constructor_keywords [OF run called]
  have "map fst ?kf = [''name'', ''mail'']" and "map_of ?kf ''age'' = None"
    unfolding fs by simp_all
  with run show ?thesis by blast
qed

text \<open>
  Claim C9 as stated fails: the key field \<open>name\<close> is a keyword argument of the
  constructor call of line 73.
\<close>

theorem get_or_create_passes_key_fields:
  "''name'' \<in> set (sqlalchemy_get_or_create (cls_meta
      (user_factory [''name'']
         (Some (scripted_session None (Inr ()) (Inl NoResultFound) False (Inr ()))) PyNone None))) \<and>
   ''name'' \<in> fst ` set [(''name'', ''cy'')] \<and>
   get_or_create
     (user_factory [''name'']
        (Some (scripted_session None (Inr ()) (Inl NoResultFound) False (Inr ()))) PyNone None)
     user_model [] [(''age'', ''9''), (''name'', ''cy'')] start
   = (Inr ([], [(''name'', ''cy'')]),
      \<lparr>world = 2,
         trace = [EQueryOneOrNone [] [(''name'', ''cy'')], EConstruct [] [(''name'', ''cy'')],
           EAdd ([], [(''name'', ''cy'')])]\<rparr>)"
  by (simp add: get_or_create_def insert_or_recover_def insert_new_def call_def user_factory_def
      scripted_session_def user_model_def start_def)

text \<open>
  Claim C10. The checker accepts \<^verbatim>\<open>None\<close>, \<^verbatim>\<open>'flush'\<close> and \<^verbatim>\<open>'commit'\<close> and nothing
  else: every other value gets the \<^verbatim>\<open>TypeError\<close> of line 20, whose operands are the
  meta, the list \<^verbatim>\<open>[None, 'commit', 'flush']\<close> and the value. The string \<^verbatim>\<open>'none'\<close> is
  such a value.
\<close>

theorem check_sqlalchemy_session_persistence_accepts:
  "check_sqlalchemy_session_persistence meta_name v =
     (if v \<in> {PyNone, PyStr ''flush'', PyStr ''commit''} then Inr ()
      else Inl (TypeError meta_name [PyNone, PyStr ''commit'', PyStr ''flush''] v)) \<and>
   PyStr ''none'' \<notin> {PyNone, PyStr ''flush'', PyStr ''commit''} \<and>
   check_sqlalchemy_session_persistence meta_name (PyStr ''none'') =
     Inl (TypeError meta_name [PyNone, PyStr ''commit'', PyStr ''flush''] (PyStr ''none''))"
  by (auto simp: check_sqlalchemy_session_persistence_def VALID_SESSION_PERSISTENCE_TYPES_def
      SESSION_PERSISTENCE_COMMIT_def SESSION_PERSISTENCE_FLUSH_def)

text \<open>
  The null value passes, the string \<^verbatim>\<open>'none'\<close> does not.
\<close>

theorem check_sqlalchemy_session_persistence_accepts_witness:
  "check_sqlalchemy_session_persistence ''UserFactory.Meta'' PyNone = Inr () \<and>
   check_sqlalchemy_session_persistence ''UserFactory.Meta'' (PyStr ''none'') =
     Inl (TypeError ''UserFactory.Meta'' [PyNone, PyStr ''commit'', PyStr ''flush'']
       (PyStr ''none''))"
  using check_sqlalchemy_session_persistence_accepts [of "''UserFactory.Meta''" PyNone]
  by simp

text \<open>
  The options of this module are defined after those of the base class.
\<close>

lemma define_options_append:
  "define_options m d (xs @ ys) =
     (case define_options m d xs of
        Inl e \<Rightarrow> Inl e
      | Inr vs \<Rightarrow> (case define_options m d ys of Inl e \<Rightarrow> Inl e | Inr ws \<Rightarrow> Inr (vs @ ws)))"
  by (induction xs) (auto split: sum.splits)

lemma define_own_options:
  "define_options m d
     [\<lparr>od_name = ''sqlalchemy_get_or_create'', od_value = PyTuple [], od_inherit = True,
        od_checker = None\<rparr>,
      \<lparr>od_name = ''sqlalchemy_session'', od_value = PyNone, od_inherit = True,
        od_checker = None\<rparr>,
      \<lparr>od_name = ''sqlalchemy_session_persistence'', od_value = PyNone, od_inherit = True,
        od_checker = Some check_sqlalchemy_session_persistence\<rparr>] =
   (let v = (case map_of d ''sqlalchemy_session_persistence'' of None \<Rightarrow> PyNone | Some x \<Rightarrow> x)
    in case check_sqlalchemy_session_persistence m v of
         Inl e \<Rightarrow> Inl e
       | Inr u \<Rightarrow>
           Inr [(''sqlalchemy_get_or_create'',
                 case map_of d ''sqlalchemy_get_or_create'' of None \<Rightarrow> PyTuple [] | Some x \<Rightarrow> x),
                (''sqlalchemy_session'',
                 case map_of d ''sqlalchemy_session'' of None \<Rightarrow> PyNone | Some x \<Rightarrow> x),
                (''sqlalchemy_session_persistence'', v)])"
  by (simp add: apply_option_def Let_def split: sum.splits option.splits)

text \<open>
  Claim C7. Let a \<^verbatim>\<open>Meta\<close> declare the value \<open>v\<close> for
  \<^verbatim>\<open>sqlalchemy_session_persistence\<close>. If \<open>v\<close> is none of \<^verbatim>\<open>None\<close>, \<^verbatim>\<open>'flush'\<close>, \<^verbatim>\<open>'commit'\<close>,
  defining the configuration over the options of \<^verbatim>\<open>_build_default_options\<close> fails, and
  with the \<^verbatim>\<open>TypeError\<close> of the checker when the options of the base class pass. If \<open>v\<close>
  is one of the three, the definition goes through whenever the options of the base
  class do and stores \<open>v\<close>; and at create time the persistence step raises nothing of
  its own: an exception there is one that \<^verbatim>\<open>session.flush()\<close> or \<^verbatim>\<open>session.commit()\<close>
  raised.
\<close>

theorem session_persistence_checked_at_definition:
  assumes declared: "map_of declared ''sqlalchemy_session_persistence'' = Some v"
  shows "(v \<notin> {PyNone, PyStr ''flush'', PyStr ''commit''} \<longrightarrow>
            (\<exists>e. define_options meta_name declared (build_default_options super_options) = Inl e) \<and>
            (\<forall>vs. define_options meta_name declared super_options = Inr vs \<longrightarrow>
               define_options meta_name declared (build_default_options super_options) =
                 Inl (TypeError meta_name VALID_SESSION_PERSISTENCE_TYPES v))) \<and>
         (v \<in> {PyNone, PyStr ''flush'', PyStr ''commit''} \<longrightarrow>
            (\<forall>vs. define_options meta_name declared super_options = Inr vs \<longrightarrow>
               (\<exists>ws. define_options meta_name declared (build_default_options super_options) =
                  Inr (vs @ ws) \<and> map_of ws ''sqlalchemy_session_persistence'' = Some v)) \<and>
            (\<forall>sess st e st'. apply_persistence sess v st = (Inl e, st') \<longrightarrow>
               v = PyStr ''flush'' \<and> fst (flush sess (world st)) = Inl e \<or>
               v = PyStr ''commit'' \<and> fst (commit sess (world st)) = Inl e))"
proof -
  have chk: "check_sqlalchemy_session_persistence meta_name v =
     (if v \<in> {PyNone, PyStr ''flush'', PyStr ''commit''} then Inr ()
      else Inl (TypeError meta_name VALID_SESSION_PERSISTENCE_TYPES v))"
    by (auto simp: check_sqlalchemy_session_persistence_def VALID_SESSION_PERSISTENCE_TYPES_def
      SESSION_PERSISTENCE_COMMIT_def SESSION_PERSISTENCE_FLUSH_def)
  have bad: "define_options meta_name declared (build_default_options super_options) =
      (case define_options meta_name declared super_options of
         Inl e \<Rightarrow> Inl e
       | Inr vs \<Rightarrow> Inl (TypeError meta_name VALID_SESSION_PERSISTENCE_TYPES v))"
    if "v \<notin> {PyNone, PyStr ''flush'', PyStr ''commit''}"
    unfolding build_default_options_def define_options_append define_own_options
    using that declared by (simp add: chk split: sum.splits)
  have good: "define_options meta_name declared (build_default_options super_options) =
      (case define_options meta_name declared super_options of
         Inl e \<Rightarrow> Inl e
       | Inr vs \<Rightarrow> Inr (vs @
           [(''sqlalchemy_get_or_create'',
             case map_of declared ''sqlalchemy_get_or_create'' of
               None \<Rightarrow> PyTuple [] | Some x \<Rightarrow> x),
            (''sqlalchemy_session'',
             case map_of declared ''sqlalchemy_session'' of None \<Rightarrow> PyNone | Some x \<Rightarrow> x),
            (''sqlalchemy_session_persistence'', v)]))"
    if "v \<in> {PyNone, PyStr ''flush'', PyStr ''commit''}"
    unfolding build_default_options_def define_options_append define_own_options
    using that declared by (simp add: chk split: sum.splits)
  have use: "v = PyStr ''flush'' \<and> fst (flush sess (world st)) = Inl e \<or>
      v = PyStr ''commit'' \<and> fst (commit sess (world st)) = Inl e"
    if "apply_persistence sess v st = (Inl e, st')" for sess st e st'
    using apply_persistence_eq [OF that]
    by (auto simp: SESSION_PERSISTENCE_COMMIT_def SESSION_PERSISTENCE_FLUSH_def)
  show ?thesis
  proof (intro conjI impI allI)
    assume b: "v \<notin> {PyNone, PyStr ''flush'', PyStr ''commit''}"
    show "\<exists>e. define_options meta_name declared (build_default_options super_options) = Inl e"
      unfolding bad [OF b] by (simp split: sum.splits)
    show "define_options meta_name declared (build_default_options super_options) =
        Inl (TypeError meta_name VALID_SESSION_PERSISTENCE_TYPES v)"
      if "define_options meta_name declared super_options = Inr vs" for vs
      unfolding bad [OF b] using that by simp
  next
    assume g: "v \<in> {PyNone, PyStr ''flush'', PyStr ''commit''}"
    show "\<exists>ws. define_options meta_name declared (build_default_options super_options) =
        Inr (vs @ ws) \<and> map_of ws ''sqlalchemy_session_persistence'' = Some v"
      if "define_options meta_name declared super_options = Inr vs" for vs
      unfolding good [OF g] using that by simp
    show "v = PyStr ''flush'' \<and> fst (flush sess (world st)) = Inl e \<or>
        v = PyStr ''commit'' \<and> fst (commit sess (world st)) = Inl e"
      if "apply_persistence sess v st = (Inl e, st')" for sess st e st'
      using that by (rule use)
  qed
qed

text \<open>
  Declaring \<^verbatim>\<open>'always'\<close> fails at definition, declaring \<^verbatim>\<open>'flush'\<close> is stored.
\<close>

theorem session_persistence_checked_at_definition_witness:
  "define_options ''UserFactory.Meta'' [(''sqlalchemy_session_persistence'', PyStr ''always'')]
     (build_default_options [])
   = Inl (TypeError ''UserFactory.Meta'' [PyNone, PyStr ''commit'', PyStr ''flush'']
       (PyStr ''always'')) \<and>
   (\<exists>ws. define_options ''UserFactory.Meta'' [(''sqlalchemy_session_persistence'', PyStr ''flush'')]
       (build_default_options []) = Inr ws \<and>
     map_of ws ''sqlalchemy_session_persistence'' = Some (PyStr ''flush''))"
proof -
  have bad: "map_of [(''sqlalchemy_session_persistence'', PyStr ''always'')]
      ''sqlalchemy_session_persistence'' = Some (PyStr ''always'')"
    by simp
  have good: "map_of [(''sqlalchemy_session_persistence'', PyStr ''flush'')]
      ''sqlalchemy_session_persistence'' = Some (PyStr ''flush'')"
    by simp
  have supers: "define_options ''UserFactory.Meta'' d [] = Inr []" for d
    by simp
  from session_persistence_checked_at_definition [OF bad, of "''UserFactory.Meta''" "[]"]
  have rejected: "define_options ''UserFactory.Meta''
      [(''sqlalchemy_session_persistence'', PyStr ''always'')] (build_default_options [])
    = Inl (TypeError ''UserFactory.Meta'' [PyNone, PyStr ''commit'', PyStr ''flush'']
        (PyStr ''always''))"
    by (simp add: supers VALID_SESSION_PERSISTENCE_TYPES_def SESSION_PERSISTENCE_COMMIT_def
        SESSION_PERSISTENCE_FLUSH_def del: define_options.simps)
  from session_persistence_checked_at_definition [OF good, of "''UserFactory.Meta''" "[]"]
  have "\<forall>vs. define_options ''UserFactory.Meta''
        [(''sqlalchemy_session_persistence'', PyStr ''flush'')] [] = Inr vs \<longrightarrow>
      (\<exists>ws. define_options ''UserFactory.Meta''
          [(''sqlalchemy_session_persistence'', PyStr ''flush'')] (build_default_options [])
        = Inr (vs @ ws) \<and> map_of ws ''sqlalchemy_session_persistence'' = Some (PyStr ''flush''))"
    by blast
  from this [rule_format, OF supers]
  have accepted: "\<exists>ws. define_options ''UserFactory.Meta''
        [(''sqlalchemy_session_persistence'', PyStr ''flush'')] (build_default_options [])
      = Inr ws \<and> map_of ws ''sqlalchemy_session_persistence'' = Some (PyStr ''flush'')"
    by simp
  from rejected accepted show ?thesis by (rule conjI)
qed

end
